(* ===== verification/Prelude.thy ===== *)
theory Prelude
  imports Main "HOL-Library.Word" "HOL-Library.Sublist"
begin

text \<open>
  Shared vocabulary of the development: the Python values the agent manipulates
  (bytes, exceptions, the whitespace class of \<open>str.isspace\<close> and \<open>\<bs>s\<close>, the
  \<open>str.strip\<close> family) and the generic list lemmas the component theories use.
  Strings are HOL strings (\<open>char list\<close>); an Isabelle \<open>char\<close> is read as the
  Unicode code point of the same number, so the model covers texts whose code
  points are below 256 (ASCII and Latin-1).
\<close>

named_theorems py_simps "equations of the Python built-ins used by the agent"

type_synonym byte = "8 word"

text \<open>
  A Python exception, as the agent observes it: \<open>type(e).__name__\<close> and
  \<open>str(e)\<close>.
\<close>

datatype pyexn = PyExn (exn_name: string) (exn_msg: string)

text \<open>The text of \<open>f"{type(e).__name__}: {e}"\<close>.\<close>

definition exn_text :: "pyexn \<Rightarrow> string" where
  "exn_text e = exn_name e @ '': '' @ exn_msg e"

text \<open>
  \<open>isinstance(e, Exception)\<close>, the test of an \<open>except Exception\<close> clause. The
  built-in exceptions that derive from \<open>BaseException\<close> but not from
  \<open>Exception\<close> pass through such a clause: \<open>SystemExit\<close> (raised by \<open>exit()\<close>,
  \<open>quit()\<close> and \<open>sys.exit()\<close>), \<open>KeyboardInterrupt\<close>, \<open>GeneratorExit\<close>, and
  \<open>BaseException\<close> and \<open>BaseExceptionGroup\<close> themselves.
\<close>

definition base_only_exns :: "string list" where
  "base_only_exns = [''BaseException'', ''SystemExit'', ''KeyboardInterrupt'', ''GeneratorExit'',
                     ''BaseExceptionGroup'']"

definition is_exception :: "pyexn \<Rightarrow> bool" where
  "is_exception e \<longleftrightarrow> exn_name e \<notin> set base_only_exns"

text \<open>
  \<open>str.isspace\<close> (and the \<open>\<bs>s\<close> class of \<open>re\<close> on \<open>str\<close> patterns) on the
  code points 0 to 255: tab to carriage return, the four information separators,
  space, NEL and no-break space.
\<close>

definition py_isspace :: "char \<Rightarrow> bool" where
  "py_isspace c \<longleftrightarrow>
     (let n = of_char c :: nat in
      (9 \<le> n \<and> n \<le> 13) \<or> (28 \<le> n \<and> n \<le> 32) \<or> n = 133 \<or> n = 160)"

definition py_lstrip :: "string \<Rightarrow> string" where
  "py_lstrip s = dropWhile py_isspace s"

definition py_rstrip :: "string \<Rightarrow> string" where
  "py_rstrip s = rev (dropWhile py_isspace (rev s))"

definition py_strip :: "string \<Rightarrow> string" where
  "py_strip s = py_rstrip (py_lstrip s)"

subsection \<open>Whitespace\<close>

lemma backtick_not_space [simp]: "\<not> py_isspace (CHR ''`'')"
  by (simp add: py_isspace_def)

lemma newline_space [simp]: "py_isspace (CHR ''\<newline>'')"
  by (simp add: py_isspace_def)

subsection \<open>Stripping\<close>

lemma py_strip_Nil [simp]: "py_strip [] = []"
  by (simp add: py_strip_def py_lstrip_def py_rstrip_def)

lemma py_strip_lstrip [simp]: "py_strip (dropWhile py_isspace s) = py_strip s"
  by (simp add: py_strip_def py_lstrip_def)

lemma py_strip_eq_Nil [simp]: "py_strip s = [] \<longleftrightarrow> (\<forall>c \<in> set s. py_isspace c)"
proof -
  have "rev (dropWhile py_isspace (rev xs)) = [] \<longleftrightarrow> (\<forall>c \<in> set xs. py_isspace c)" for xs
    by simp
  moreover have "(\<forall>c \<in> set (dropWhile py_isspace s). py_isspace c) \<longleftrightarrow> (\<forall>c \<in> set s. py_isspace c)"
    by (induction s) auto
  ultimately show ?thesis
    by (simp add: py_strip_def py_lstrip_def py_rstrip_def)
qed

lemma suffix_dropWhile: "suffix (dropWhile P xs) xs"
  by (induction xs) (auto intro: suffix_ConsI)

lemma py_strip_sublist: "sublist (py_strip s) s"
proof -
  have "prefix (rev (dropWhile py_isspace (rev t))) t" for t :: string
    using suffix_dropWhile [of py_isspace "rev t"] by (simp add: suffix_to_prefix)
  then show ?thesis
    unfolding py_strip_def py_lstrip_def py_rstrip_def
    by (meson prefix_imp_sublist sublist_order.order.trans suffix_imp_sublist suffix_dropWhile)
qed

lemma py_strip_hd: "py_strip s = c # cs \<Longrightarrow> \<not> py_isspace c"
proof -
  assume a: "py_strip s = c # cs"
  define t where "t = dropWhile py_isspace s"
  have nt: "t \<noteq> [] \<Longrightarrow> \<not> py_isspace (hd t)"
    unfolding t_def using hd_dropWhile by metis
  have "rev (dropWhile py_isspace (rev t)) = c # cs"
    using a by (simp add: py_strip_def py_lstrip_def py_rstrip_def t_def)
  then obtain u where "t = c # cs @ u"
    by (metis append_Cons rev_append rev_rev_ident takeWhile_dropWhile_id)
  with nt show ?thesis by simp
qed

lemma py_strip_last: "py_strip s = cs @ [c] \<Longrightarrow> \<not> py_isspace c"
proof -
  assume a: "py_strip s = cs @ [c]"
  then have "rev (dropWhile py_isspace (rev (dropWhile py_isspace s))) = cs @ [c]"
    by (simp add: py_strip_def py_lstrip_def py_rstrip_def)
  then have "dropWhile py_isspace (rev (dropWhile py_isspace s)) = c # rev cs"
    by (metis rev_rev_ident rev.simps(2) rev_append append_Nil)
  then show ?thesis
    by (metis hd_dropWhile list.discI list.sel(1))
qed

lemma py_strip_keeps_prefix:
  assumes "t \<noteq> []" and "\<forall>c \<in> set t. \<not> py_isspace c"
  shows "prefix t (py_strip (t @ s))"
proof -
  obtain c t' where t: "t = c # t'" using assms(1) by (cases t) auto
  have l: "py_lstrip (t @ s) = t @ s" using assms(2) by (simp add: t py_lstrip_def)
  have "dropWhile py_isspace (rev (t @ s)) = dropWhile py_isspace (rev s) @ rev t
        \<or> dropWhile py_isspace (rev (t @ s)) = rev t"
  proof (cases "\<forall>x \<in> set (rev s). py_isspace x")
    case True
    have "dropWhile py_isspace (rev t) = rev t"
      using assms hd_in_set [of "rev t"] by (simp add: dropWhile_eq_self_iff)
    with True show ?thesis by (simp add: dropWhile_append)
  next
    case False
    then show ?thesis by (auto simp: dropWhile_append)
  qed
  then show ?thesis
    by (auto simp: py_strip_def l py_rstrip_def)
qed

end
