(* ===== verification/Extract.thy ===== *)
theory Extract
  imports Prelude
begin

text \<open>
  The code extractor, \<open>extract_code\<close> of \<open>src/agent.py\<close>. The source runs
  \<open>re.findall\<close> with the patterns \<open>```python\<bs>s*(.*?)```\<close> and
  \<open>```\<bs>s*(.*?)```\<close> under \<open>re.DOTALL\<close>. The regular-expression engine is
  modelled by the backtracking matcher these two patterns need: the literal
  opener, a greedy \<open>\<bs>s*\<close> that gives back characters when the rest fails, a
  lazy \<open>.*?\<close> that grows one character at a time until the closing fence
  matches, and the \<open>findall\<close> scan that restarts at the end of each match or one
  character further on a failure. \<open>first_block\<close> is the direct reading (first
  opener, then first closing fence after it); \<open>findall_first_block\<close> proves the
  two agree.
\<close>

definition bare_fence :: string where
  "bare_fence = ''```''"

definition py_fence :: string where
  "py_fence = ''```python''"

subsection \<open>The regular-expression matcher\<close>

text \<open>\<open>(.*?)```\<close>: the lazy group, the accumulator holding what it has taken.\<close>

fun lazy_close :: "string \<Rightarrow> string \<Rightarrow> (string \<times> string) option" where
  "lazy_close acc [] = None"
| "lazy_close acc (c # cs) =
     (if prefix bare_fence (c # cs) then Some (rev acc, drop 3 (c # cs))
      else lazy_close (c # acc) cs)"

text \<open>\<open>\<bs>s*(.*?)```\<close>: greedy whitespace first, backtracking one character at a time.\<close>

fun ws_lazy :: "string \<Rightarrow> (string \<times> string) option" where
  "ws_lazy [] = lazy_close [] []"
| "ws_lazy (c # cs) =
     (if py_isspace c
      then (case ws_lazy cs of Some r \<Rightarrow> Some r | None \<Rightarrow> lazy_close [] (c # cs))
      else lazy_close [] (c # cs))"

text \<open>A match of \<open>opn\<bs>s*(.*?)```\<close> at the start of the text: the group and the rest.\<close>

definition match_at :: "string \<Rightarrow> string \<Rightarrow> (string \<times> string) option" where
  "match_at opn s = (if prefix opn s then ws_lazy (drop (length opn) s) else None)"

lemma prefix_bare_fence_length: "prefix bare_fence s \<Longrightarrow> 3 \<le> length s"
  using prefix_length_le by (fastforce simp: bare_fence_def)

lemma lazy_close_shorter: "lazy_close acc s = Some (g, r) \<Longrightarrow> length r + 3 \<le> length s"
proof (induction acc s rule: lazy_close.induct)
  case (2 acc c cs)
  then show ?case
    by (auto split: if_splits dest!: prefix_bare_fence_length)
qed simp

lemma ws_lazy_shorter: "ws_lazy s = Some (g, r) \<Longrightarrow> length r + 3 \<le> length s"
proof (induction s)
  case (Cons c cs)
  then show ?case
    by (auto split: if_splits option.splits dest: lazy_close_shorter simp del: lazy_close.simps)
qed simp

lemma match_at_shorter: "match_at opn s = Some (g, r) \<Longrightarrow> length r < length s"
  by (auto simp: match_at_def split: if_splits dest!: ws_lazy_shorter)

text \<open>\<open>re.findall\<close>: every non-overlapping match, left to right.\<close>

function findall :: "string \<Rightarrow> string \<Rightarrow> string list" where
  "findall opn s =
     (case match_at opn s of
        Some (g, r) \<Rightarrow> g # findall opn r
      | None \<Rightarrow> (case s of [] \<Rightarrow> [] | _ # cs \<Rightarrow> findall opn cs))"
  by pat_completeness auto
termination
  by (relation "measure (\<lambda>(opn, s). length s)") (auto dest: match_at_shorter)

declare findall.simps [simp del]

text \<open>\<open>extract_code\<close>: the tagged tier, then the bare tier, first match stripped.\<close>

definition extract_code :: "string \<Rightarrow> string option" where
  "extract_code text =
     (case findall py_fence text of
        g # _ \<Rightarrow> Some (py_strip g)
      | [] \<Rightarrow> (case findall bare_fence text of
                 g # _ \<Rightarrow> Some (py_strip g)
               | [] \<Rightarrow> None))"

subsection \<open>The direct reading\<close>

text \<open>The first occurrence of a pattern: the text before it and the text after it.\<close>

fun split_first :: "string \<Rightarrow> string \<Rightarrow> (string \<times> string) option" where
  "split_first p [] = (if p = [] then Some ([], []) else None)"
| "split_first p (c # cs) =
     (if prefix p (c # cs) then Some ([], drop (length p) (c # cs))
      else map_option (\<lambda>(b, a). (c # b, a)) (split_first p cs))"

definition first_block :: "string \<Rightarrow> string \<Rightarrow> string option" where
  "first_block opn s =
     (case split_first opn s of
        None \<Rightarrow> None
      | Some (_, r) \<Rightarrow> map_option fst (split_first bare_fence r))"

definition extract_code_ref :: "string \<Rightarrow> string option" where
  "extract_code_ref text =
     (case first_block py_fence text of
        Some b \<Rightarrow> Some (py_strip b)
      | None \<Rightarrow> map_option py_strip (first_block bare_fence text))"

subsection \<open>Lemmas on the first occurrence\<close>

lemma split_first_Some: "split_first p s = Some (b, a) \<Longrightarrow> s = b @ p @ a"
proof (induction p s arbitrary: b rule: split_first.induct)
  case (1 p)
  then show ?case by (simp split: if_splits)
next
  case (2 p c cs)
  then show ?case
    by (auto simp: prefix_def split: if_splits)
qed

lemma split_first_None_drop: "split_first p s = None \<Longrightarrow> split_first p (drop k s) = None"
proof (induction s arbitrary: k)
  case Nil
  then show ?case by simp
next
  case (Cons c cs)
  then show ?case
    by (cases k) (auto split: if_splits)
qed

lemma split_first_no_sublist:
  "split_first p s = Some (b, a) \<Longrightarrow> p \<noteq> [] \<Longrightarrow> \<not> sublist p b"
proof (induction p s arbitrary: b rule: split_first.induct)
  case (1 p)
  then show ?case by (simp split: if_splits)
next
  case (2 p c cs)
  show ?case
  proof (cases "prefix p (c # cs)")
    case True
    with "2.prems" show ?thesis by simp
  next
    case False
    with "2.prems" obtain b' where b: "b = c # b'" and r: "split_first p cs = Some (b', a)"
      by auto
    from "2.IH" [OF False r "2.prems"(2)] have "\<not> sublist p b'" .
    moreover have "\<not> prefix p (c # b')"
    proof
      assume "prefix p (c # b')"
      moreover from split_first_Some [OF r] have "c # cs = (c # b') @ p @ a" by simp
      ultimately have "prefix p (c # cs)"
        by (metis prefix_append)
      with False show False ..
    qed
    ultimately show ?thesis
      by (simp add: b sublist_Cons_right)
  qed
qed

subsection \<open>The matcher computes the direct reading\<close>

lemma lazy_close_split_first:
  "lazy_close acc s = map_option (\<lambda>(b, a). (rev acc @ b, a)) (split_first bare_fence s)"
proof (induction acc s rule: lazy_close.induct)
  case (1 acc)
  then show ?case by (simp add: bare_fence_def)
next
  case (2 acc c cs)
  then show ?case
    by (auto simp: bare_fence_def option.map_comp comp_def case_prod_beta numeral_2_eq_2
        intro!: option.map_cong)
qed

lemma prefix_bare_fence_hd: "prefix bare_fence (c # cs) \<Longrightarrow> c = CHR ''`''"
  by (simp add: bare_fence_def)

lemma dropWhile_head_stop: "\<not> P c \<Longrightarrow> c # cs = a @ r \<Longrightarrow> dropWhile P a = a"
  by (cases a) auto

lemma ws_lazy_split_first:
  "ws_lazy s = map_option (\<lambda>(b, a). (dropWhile py_isspace b, a)) (split_first bare_fence s)"
proof (induction s)
  case Nil
  then show ?case by (simp add: bare_fence_def)
next
  case (Cons c cs)
  show ?case
  proof (cases "py_isspace c")
    case True
    then have np: "\<not> prefix bare_fence (c # cs)"
      using prefix_bare_fence_hd by fastforce
    show ?thesis
      using True np Cons.IH
      by (cases "split_first bare_fence cs")
         (auto simp: lazy_close_split_first simp del: lazy_close.simps)
  next
    case False
    then show ?thesis
      by (cases "split_first bare_fence (c # cs)")
         (auto simp: lazy_close_split_first simp del: lazy_close.simps split_first.simps
           dest!: split_first_Some intro: dropWhile_head_stop [symmetric])
  qed
qed

lemma match_at_split_first:
  "match_at opn s =
     (if prefix opn s
      then map_option (\<lambda>(b, a). (dropWhile py_isspace b, a))
             (split_first bare_fence (drop (length opn) s))
      else None)"
  by (simp add: match_at_def ws_lazy_split_first)

lemma split_first_prefix:
  "prefix p s \<Longrightarrow> split_first p s = Some ([], drop (length p) s)"
  by (cases s) auto

lemma split_first_not_prefix:
  "\<not> prefix p (c # cs) \<Longrightarrow>
   split_first p (c # cs) = map_option (\<lambda>(b, a). (c # b, a)) (split_first p cs)"
  by simp

lemma first_block_Cons:
  "\<not> prefix opn (c # cs) \<Longrightarrow> first_block opn (c # cs) = first_block opn cs"
  by (auto simp: first_block_def split: option.splits simp del: split_first.simps
      dest: split_first_not_prefix)

lemma findall_unmatched:
  "match_at opn s = None \<Longrightarrow> findall opn s = (case s of [] \<Rightarrow> [] | _ # cs \<Rightarrow> findall opn cs)"
  by (subst findall.simps) simp

lemma first_block_None_after:
  assumes none: "split_first bare_fence (drop (length opn) (c # cs)) = None"
  shows "first_block opn cs = None"
proof (cases "split_first opn cs")
  case None
  then show ?thesis by (simp add: first_block_def)
next
  case (Some ba)
  then obtain b r where ba: "split_first opn cs = Some (b, r)" by (cases ba) auto
  then have "cs = b @ opn @ r" by (rule split_first_Some)
  then have "r = drop (Suc (length b)) (drop (length opn) (c # cs))"
    by simp
  moreover have "split_first bare_fence (drop (Suc (length b)) (drop (length opn) (c # cs))) = None"
    using none by (rule split_first_None_drop)
  ultimately have "split_first bare_fence r = None"
    by simp
  with ba show ?thesis by (simp add: first_block_def)
qed

theorem findall_first_block:
  "(case findall opn s of [] \<Rightarrow> None | g # _ \<Rightarrow> Some g)
     = map_option (dropWhile py_isspace) (first_block opn s)"
proof (induction opn s rule: findall.induct)
  case (1 opn s)
  show ?case
  proof (cases "prefix opn s")
    case True
    show ?thesis
    proof (cases "split_first bare_fence (drop (length opn) s)")
      case (Some ba)
      then obtain b a where ba: "split_first bare_fence (drop (length opn) s) = Some (b, a)"
        by (cases ba) auto
      then have "findall opn s = dropWhile py_isspace b # findall opn a"
        by (subst findall.simps) (simp add: match_at_split_first True)
      moreover have "first_block opn s = Some b"
        by (simp add: first_block_def split_first_prefix True ba del: split_first.simps)
      ultimately show ?thesis by simp
    next
      case None
      then have m: "match_at opn s = None"
        by (simp add: match_at_split_first True)
      have fb: "first_block opn s = None"
        by (simp add: first_block_def split_first_prefix True None del: split_first.simps)
      show ?thesis
      proof (cases s)
        case Nil
        with m fb show ?thesis by (simp add: findall_unmatched)
      next
        case (Cons c cs)
        have "first_block opn cs = None"
          using None Cons by (intro first_block_None_after) simp
        with "1.IH"(1) [OF m Cons] m Cons fb show ?thesis
          by (simp add: findall_unmatched)
      qed
    qed
  next
    case False
    then have m: "match_at opn s = None" by (simp add: match_at_def)
    show ?thesis
    proof (cases s)
      case Nil
      with False have "first_block opn s = None"
        by (simp add: first_block_def)
      with m Nil show ?thesis by (simp add: findall_unmatched)
    next
      case (Cons c cs)
      with "1.IH"(1) [OF m Cons] m False show ?thesis
        by (simp add: findall_unmatched first_block_Cons del: split_first.simps)
    qed
  qed
qed

lemma split_first_skip:
  "p \<noteq> [] \<Longrightarrow> hd p \<notin> set pre \<Longrightarrow>
   split_first p (pre @ s) = map_option (\<lambda>(b, a). (pre @ b, a)) (split_first p s)"
proof (induction pre)
  case Nil
  then show ?case by (simp add: option.map_ident case_prod_beta)
next
  case (Cons c pre)
  then have "\<not> prefix p (c # pre @ s)"
    by (cases p) auto
  with Cons show ?case
    by (simp add: option.map_comp comp_def case_prod_beta)
qed

lemma split_first_at:
  "p \<noteq> [] \<Longrightarrow> hd p \<notin> set pre \<Longrightarrow> split_first p (pre @ p @ s) = Some (pre, s)"
  by (simp add: split_first_skip split_first_prefix del: split_first.simps)

lemma split_first_None_iff: "p \<noteq> [] \<Longrightarrow> split_first p s = None \<longleftrightarrow> \<not> sublist p s"
proof (induction s)
  case Nil
  then show ?case by simp
next
  case (Cons c cs)
  then show ?case
    by (auto simp: sublist_Cons_right)
qed

lemma first_block_Some:
  assumes "first_block opn s = Some b"
  shows "\<exists>pre a. s = pre @ opn @ b @ bare_fence @ a \<and> \<not> sublist bare_fence b"
proof -
  from assms obtain pre r a where s1: "split_first opn s = Some (pre, r)"
    and s2: "split_first bare_fence r = Some (b, a)"
    by (auto simp: first_block_def split: option.splits simp del: split_first.simps)
  from split_first_Some [OF s1] split_first_Some [OF s2]
  have "s = pre @ opn @ b @ bare_fence @ a" by simp
  moreover have "\<not> sublist bare_fence b"
    using s2 by (rule split_first_no_sublist) (simp add: bare_fence_def)
  ultimately show ?thesis by blast
qed

lemma first_block_bare_None: "\<not> sublist bare_fence s \<Longrightarrow> first_block opn s = None"
  by (cases "first_block opn s")
     (auto dest!: first_block_Some, metis append.assoc sublist_appendI)

lemma not_python_prefix:
  "\<not> prefix ''python'' tag \<Longrightarrow> \<not> prefix ''python'' (tag @ ''\<newline>'' @ x)"
proof
  assume "prefix ''python'' (tag @ ''\<newline>'' @ x)" and np: "\<not> prefix ''python'' tag"
  then obtain us where u: "''python'' = tag @ us" and "prefix us (CHR ''\<newline>'' # x)" and "us \<noteq> []"
    by (auto simp: prefix_append)
  then obtain zs where "us = CHR ''\<newline>'' # zs" by (auto simp: prefix_Cons)
  with u have "CHR ''\<newline>'' \<in> set ''python''" by (metis in_set_conv_decomp)
  then show False by simp
qed

lemmas extract_defs = extract_code_ref_def first_block_def py_fence_def bare_fence_def

lemma extract_code_eq_ref: "extract_code raw = extract_code_ref raw"
proof -
  have tag: "(case findall py_fence raw of [] \<Rightarrow> None | g # _ \<Rightarrow> Some g)
     = map_option (dropWhile py_isspace) (first_block py_fence raw)"
    by (rule findall_first_block)
  have bare: "(case findall bare_fence raw of [] \<Rightarrow> None | g # _ \<Rightarrow> Some g)
     = map_option (dropWhile py_isspace) (first_block bare_fence raw)"
    by (rule findall_first_block)
  show ?thesis
    using tag bare
    by (cases "first_block py_fence raw"; cases "first_block bare_fence raw")
       (auto simp: extract_code_def extract_code_ref_def split: list.splits)
qed

text \<open>C7: the backtracking \<open>re.findall\<close> model and the direct first-block reading agree.\<close>

theorem extract_code_equiv: "extract_code raw = extract_code_ref raw"
  by (rule extract_code_eq_ref)

text \<open>
  C8: a block tagged \<open>```python\<close> is taken in preference to everything after it,
  an untagged block included; its content comes back stripped.
\<close>

theorem extract_tagged_first:
  assumes "CHR ''`'' \<notin> set pre" and "CHR ''`'' \<notin> set body"
  shows "extract_code (pre @ ''```python'' @ body @ ''```'' @ post) = Some (py_strip body)"
proof -
  have "split_first py_fence (pre @ py_fence @ body @ bare_fence @ post)
          = Some (pre, body @ bare_fence @ post)"
    using assms(1) by (intro split_first_at) (auto simp: py_fence_def)
  moreover have "split_first bare_fence (body @ bare_fence @ post) = Some (body, post)"
    using assms(2) by (intro split_first_at) (auto simp: bare_fence_def)
  ultimately show ?thesis
    by (simp add: extract_code_eq_ref extract_code_ref_def first_block_def py_fence_def
        bare_fence_def del: split_first.simps)
qed

text \<open>C9: a text without any fence yields no code: absent, not an error.\<close>

theorem extract_no_fence: "\<not> sublist ''```'' raw \<Longrightarrow> extract_code raw = None"
  using first_block_bare_None [of raw]
  by (simp add: extract_code_eq_ref extract_code_ref_def bare_fence_def)

text \<open>
  C10: extracted code is clean: it holds no fence and starts and ends with a
  character that is not whitespace.
\<close>

theorem extract_code_clean:
  assumes "extract_code raw = Some c"
  shows "\<not> sublist ''```'' c \<and> (c \<noteq> [] \<longrightarrow> \<not> py_isspace (hd c) \<and> \<not> py_isspace (last c))"
proof -
  from assms obtain opn b where fb: "first_block opn raw = Some b" and c: "c = py_strip b"
    by (auto simp: extract_code_eq_ref extract_code_ref_def split: option.splits)
  from first_block_Some [OF fb] have "\<not> sublist bare_fence b" by blast
  then have "\<not> sublist bare_fence c"
    using py_strip_sublist [of b] c sublist_order.order.trans by blast
  moreover have "c \<noteq> [] \<longrightarrow> \<not> py_isspace (hd c) \<and> \<not> py_isspace (last c)"
    using c py_strip_hd py_strip_last
    by (metis append_butlast_last_id list.collapse)
  ultimately show ?thesis by (simp add: bare_fence_def)
qed

text \<open>
  C26: a block whose tag is another spelling of the language (\<open>```Python\<close>,
  \<open>```py\<close>, \<open>```sql\<close>...) misses the tagged tier, and the bare tier keeps the
  tag as the first line of the extracted code, which then fails when run.
\<close>

theorem extract_keeps_tag:
  assumes pre: "CHR ''`'' \<notin> set pre" and tag: "CHR ''`'' \<notin> set tag" and code: "CHR ''`'' \<notin> set code"
    and ne: "tag \<noteq> []" and ns: "\<forall>c \<in> set tag. \<not> py_isspace c" and np: "\<not> prefix ''python'' tag"
    and post: "\<not> sublist ''```python'' (''```'' @ post)"
  shows "extract_code (pre @ ''```'' @ tag @ ''\<newline>'' @ code @ ''```'' @ post)
           = Some (py_strip (tag @ ''\<newline>'' @ code))
         \<and> prefix tag (py_strip (tag @ ''\<newline>'' @ code))"
proof -
  let ?body = "tag @ ''\<newline>'' @ code"
  obtain c t' where t: "tag = c # t'" and c: "c \<noteq> CHR ''`''" using ne tag by (cases tag) auto
  have bt: "CHR ''`'' \<notin> set ?body" using tag code by simp
  have n3: "split_first py_fence (''```'' @ post) = None"
    using post split_first_None_iff [of py_fence "''```'' @ post"] by (simp add: py_fence_def del: split_first.simps)
  have nb: "split_first py_fence (?body @ ''```'' @ post) = None"
    using split_first_skip [of py_fence ?body "''```'' @ post"] n3 bt by (simp add: py_fence_def del: split_first.simps)
  have npy: "\<not> prefix ''python'' (tag @ CHR ''\<newline>'' # code @ ''```'' @ post)"
    using not_python_prefix [OF np, of "code @ ''```'' @ post"] by simp
  have "split_first py_fence (''```'' @ ?body @ ''```'' @ post) = None"
    using nb npy c by (simp add: py_fence_def t del: split_first.simps) (simp add: t)
  then have py: "first_block py_fence (pre @ ''```'' @ ?body @ ''```'' @ post) = None"
    using split_first_skip [of py_fence pre] pre by (simp add: first_block_def py_fence_def)
  have "split_first bare_fence (pre @ bare_fence @ ?body @ ''```'' @ post) = Some (pre, ?body @ ''```'' @ post)"
    using pre by (intro split_first_at) (auto simp: bare_fence_def)
  moreover have "split_first bare_fence (?body @ bare_fence @ post) = Some (?body, post)"
    using bt by (intro split_first_at) (auto simp: bare_fence_def)
  ultimately have "first_block bare_fence (pre @ ''```'' @ ?body @ ''```'' @ post) = Some ?body"
    by (simp add: first_block_def bare_fence_def del: split_first.simps)
  with py have "extract_code (pre @ ''```'' @ ?body @ ''```'' @ post) = Some (py_strip ?body)"
    by (simp add: extract_code_eq_ref extract_code_ref_def)
  moreover have "prefix tag (py_strip (tag @ ''\<newline>'' @ code))"
    using py_strip_keeps_prefix [OF ne ns] by simp
  ultimately show ?thesis by simp
qed

end
