(* ===== verification/Base64.thy ===== *)
theory Base64
  imports Prelude
begin

unbundle bit_operations_syntax

text \<open>
  Base64 (RFC 4648, standard alphabet, \<open>=\<close> padding) as the agent and the user
  interfaces use it: \<open>base64.b64encode(...).decode()\<close> in \<open>grab_plot\<close>
  (\<open>src/agent.py\<close>) and \<open>base64.b64decode\<close> in \<open>src/app.py\<close> and
  \<open>src/streamlit_app.py\<close>. The library is not part of the repository; it is
  modelled from the RFC, on bytes as \<open>8 word\<close>, packing three bytes into four
  sextets with the shifts and masks of the C implementation (\<open>binascii\<close>).
  Decoding is the strict reading of canonical input (groups of four, padding only
  at the end); where \<open>b64decode\<close> would raise \<open>binascii.Error\<close> the result
  is \<open>None\<close>.
\<close>

subsection \<open>Alphabet\<close>

text \<open>Sextet value to its ASCII code: \<open>A-Z\<close>, \<open>a-z\<close>, \<open>0-9\<close>, \<open>+\<close>, \<open>/\<close>.\<close>

definition b64_char :: "byte \<Rightarrow> byte" where
  "b64_char v =
     (if v < 26 then v + 65 else if v < 52 then v + 71 else if v < 62 then v - 4
      else if v = 62 then 43 else 47)"

definition b64_index :: "byte \<Rightarrow> byte option" where
  "b64_index c =
     (if 65 \<le> c \<and> c \<le> 90 then Some (c - 65)
      else if 97 \<le> c \<and> c \<le> 122 then Some (c - 71)
      else if 48 \<le> c \<and> c \<le> 57 then Some (c + 4)
      else if c = 43 then Some 62 else if c = 47 then Some 63 else None)"

definition b64_pad :: byte where
  "b64_pad = 61"

subsection \<open>Encoding\<close>

text \<open>
  Three bytes packed into four sextets; a short final group is packed with zero
  bytes and only its first two or three sextets are kept, then padded with \<open>=\<close>.
\<close>

definition sextets3 :: "byte \<Rightarrow> byte \<Rightarrow> byte \<Rightarrow> byte list" where
  "sextets3 a b c =
     [drop_bit 2 a, push_bit 4 (a AND 3) OR drop_bit 4 b,
      push_bit 2 (b AND 15) OR drop_bit 6 c, c AND 63]"

fun b64encode :: "byte list \<Rightarrow> byte list" where
  "b64encode (a # b # c # rest) = map b64_char (sextets3 a b c) @ b64encode rest"
| "b64encode [a, b] = map b64_char (take 3 (sextets3 a b 0)) @ [b64_pad]"
| "b64encode [a] = map b64_char (take 2 (sextets3 a 0 0)) @ [b64_pad, b64_pad]"
| "b64encode [] = []"

text \<open>\<open>bytes.decode()\<close> on ASCII bytes; other bytes are outside the model.\<close>

definition ascii_decode :: "byte list \<Rightarrow> string option" where
  "ascii_decode bs = (if \<forall>b \<in> set bs. b < 128 then Some (map (\<lambda>b. char_of (unat b)) bs) else None)"

definition ascii_encode :: "string \<Rightarrow> byte list option" where
  "ascii_encode s =
     (if \<forall>c \<in> set s. of_char c < (128::nat) then Some (map (\<lambda>c. of_nat (of_char c)) s) else None)"

subsection \<open>Decoding\<close>

definition dec3 :: "byte \<Rightarrow> byte \<Rightarrow> byte \<Rightarrow> byte \<Rightarrow> byte list" where
  "dec3 s0 s1 s2 s3 =
     [push_bit 2 s0 OR drop_bit 4 s1, push_bit 4 (s1 AND 15) OR drop_bit 2 s2,
      push_bit 6 (s2 AND 3) OR s3]"

fun b64decode_bytes :: "byte list \<Rightarrow> byte list option" where
  "b64decode_bytes (c0 # c1 # c2 # c3 # rest) =
     (if rest = [] \<and> c2 = b64_pad \<and> c3 = b64_pad then
        (case (b64_index c0, b64_index c1) of
           (Some s0, Some s1) \<Rightarrow> Some [push_bit 2 s0 OR drop_bit 4 s1]
         | _ \<Rightarrow> None)
      else if rest = [] \<and> c3 = b64_pad then
        (case (b64_index c0, b64_index c1, b64_index c2) of
           (Some s0, Some s1, Some s2) \<Rightarrow>
             Some (take 2 (dec3 s0 s1 s2 0))
         | _ \<Rightarrow> None)
      else
        (case (b64_index c0, b64_index c1, b64_index c2, b64_index c3) of
           (Some s0, Some s1, Some s2, Some s3) \<Rightarrow>
             map_option (\<lambda>r. dec3 s0 s1 s2 s3 @ r) (b64decode_bytes rest)
         | _ \<Rightarrow> None))"
| "b64decode_bytes [] = Some []"
| "b64decode_bytes _ = None"

definition b64decode :: "string \<Rightarrow> byte list option" where
  "b64decode s = (case ascii_encode s of None \<Rightarrow> None | Some bs \<Rightarrow> b64decode_bytes bs)"

subsection \<open>The alphabet is a bijection onto its 64 codes\<close>

lemma b64_table_enum:
  "list_all (\<lambda>n. b64_index (b64_char (of_nat n)) = Some (of_nat n)
                 \<and> b64_char (of_nat n) \<noteq> b64_pad \<and> b64_char (of_nat n) < 128) [0..<64]"
  by code_simp

lemma b64_table:
  assumes "v < 64"
  shows "b64_index (b64_char v) = Some v \<and> b64_char v \<noteq> b64_pad \<and> b64_char v < 128"
proof -
  from assms have "unat v < 64" by (simp add: word_less_nat_alt)
  with b64_table_enum have "b64_index (b64_char (of_nat (unat v))) = Some (of_nat (unat v))
      \<and> b64_char (of_nat (unat v)) \<noteq> b64_pad \<and> b64_char (of_nat (unat v)) < 128"
    unfolding list_all_iff by (metis atLeastLessThan_iff set_upt zero_le)
  then show ?thesis by simp
qed

lemma b64_pad_ascii [simp]: "b64_pad < 128"
  by (simp add: b64_pad_def)

subsection \<open>Sextets are below 64\<close>

lemma less8_cases:
  "(n::nat) < 8 \<Longrightarrow> n = 0 \<or> n = 1 \<or> n = 2 \<or> n = 3 \<or> n = 4 \<or> n = 5 \<or> n = 6 \<or> n = 7"
  by arith

lemma sextet_lt64: "(\<And>n. 6 \<le> n \<Longrightarrow> \<not> bit (x::byte) n) \<Longrightarrow> x < 64"
proof -
  assume hi: "\<And>n. 6 \<le> n \<Longrightarrow> \<not> bit x n"
  have "x = take_bit 6 x"
    by (rule bit_word_eqI) (meson hi bit_take_bit_iff not_le)
  then have "unat x = take_bit 6 (unat x)"
    by (metis unsigned_take_bit_eq)
  moreover have "take_bit 6 (unat x) < 2 ^ 6"
    by (rule take_bit_nat_less_exp)
  ultimately have "unat x < 64" by simp
  then show ?thesis by (simp add: word_less_nat_alt)
qed

lemma bits_eqI8: "(\<And>n. n < 8 \<Longrightarrow> bit (x::byte) n = bit y n) \<Longrightarrow> x = y"
  by (rule bit_word_eqI) simp

subsection \<open>Unpacking inverts packing\<close>

lemma sextets3_unpack:
  "\<exists>s0 s1 s2 s3. sextets3 a b c = [s0, s1, s2, s3] \<and> dec3 s0 s1 s2 s3 = [a, b, c]
     \<and> s0 < 64 \<and> s1 < 64 \<and> s2 < 64 \<and> s3 < 64"
proof -
  have u0: "push_bit 2 (drop_bit 2 a) OR drop_bit 4 (push_bit 4 (a AND 3) OR drop_bit 4 b) = a"
    by (rule bits_eqI8) (auto dest!: less8_cases simp: bit_simps,
        simp_all add: numeral_2_eq_2 numeral_3_eq_3)
  have u1: "push_bit 4 ((push_bit 4 (a AND 3) OR drop_bit 4 b) AND 15)
      OR drop_bit 2 (push_bit 2 (b AND 15) OR drop_bit 6 c) = b"
    by (rule bits_eqI8) (auto dest!: less8_cases simp: bit_simps)
  have u2: "push_bit 6 ((push_bit 2 (b AND 15) OR drop_bit 6 c) AND 3) OR (c AND 63) = c"
    by (rule bits_eqI8) (auto dest!: less8_cases simp: bit_simps)
  have lt: "drop_bit 2 a < 64" "push_bit 4 (a AND 3) OR drop_bit 4 b < 64"
    "push_bit 2 (b AND 15) OR drop_bit 6 c < 64" "c AND 63 < 64"
    by (rule sextet_lt64; auto simp: bit_simps dest: bit_imp_le_length; auto dest!: less8_cases)+
  show ?thesis
    using u0 u1 u2 lt by (simp add: sextets3_def dec3_def)
qed

lemma dec3_take2: "take 2 (dec3 s0 s1 s2 x) = take 2 (dec3 s0 s1 s2 y)"
  by (simp add: dec3_def)

lemma dec3_hd: "dec3 s0 s1 s2 s3 = a # r \<Longrightarrow> push_bit 2 s0 OR drop_bit 4 s1 = a"
  by (simp add: dec3_def)

lemma b64decode_bytes_encode: "b64decode_bytes (b64encode bs) = Some bs"
proof (induction bs rule: b64encode.induct)
  case (1 a b c rest)
  from sextets3_unpack [of a b c] obtain s0 s1 s2 s3 where
    S: "sextets3 a b c = [s0, s1, s2, s3]" and D: "dec3 s0 s1 s2 s3 = [a, b, c]"
    and lt: "s0 < 64" "s1 < 64" "s2 < 64" "s3 < 64"
    by blast
  have "b64encode rest \<noteq> [] \<or> b64_char s3 \<noteq> b64_pad"
    using b64_table [OF lt(4)] by blast
  then show ?case
    using "1.IH" S D b64_table [OF lt(1)] b64_table [OF lt(2)] b64_table [OF lt(3)]
      b64_table [OF lt(4)]
    by (auto simp del: b64decode_bytes.simps(1) simp add: b64decode_bytes.simps(1) [of _ _ _ _ "b64encode rest"])
next
  case (2 a b)
  from sextets3_unpack [of a b 0] obtain s0 s1 s2 s3 where
    S: "sextets3 a b 0 = [s0, s1, s2, s3]" and D: "dec3 s0 s1 s2 s3 = [a, b, 0]"
    and lt: "s0 < 64" "s1 < 64" "s2 < 64"
    by blast
  have "take 2 (dec3 s0 s1 s2 0) = [a, b]"
    using dec3_take2 [of s0 s1 s2 0 s3] D by simp
  then show ?case
    using S b64_table [OF lt(1)] b64_table [OF lt(2)] b64_table [OF lt(3)] by simp
next
  case (3 a)
  from sextets3_unpack [of a 0 0] obtain s0 s1 s2 s3 where
    S: "sextets3 a 0 0 = [s0, s1, s2, s3]" and D: "dec3 s0 s1 s2 s3 = [a, 0, 0]"
    and lt: "s0 < 64" "s1 < 64"
    by blast
  show ?case
    using S dec3_hd [OF D] b64_table [OF lt(1)] b64_table [OF lt(2)] by simp
qed simp

lemma b64encode_ascii: "\<forall>b \<in> set (b64encode bs). b < 128"
proof (induction bs rule: b64encode.induct)
  case (1 a b c rest)
  from sextets3_unpack [of a b c] obtain s0 s1 s2 s3 where
    "sextets3 a b c = [s0, s1, s2, s3]" "s0 < 64" "s1 < 64" "s2 < 64" "s3 < 64"
    by blast
  with "1.IH" show ?case by (simp add: b64_table)
next
  case (2 a b)
  from sextets3_unpack [of a b 0] obtain s0 s1 s2 s3 where
    "sextets3 a b 0 = [s0, s1, s2, s3]" "s0 < 64" "s1 < 64" "s2 < 64"
    by blast
  then show ?case by (simp add: b64_table)
next
  case (3 a)
  from sextets3_unpack [of a 0 0] obtain s0 s1 s2 s3 where
    "sextets3 a 0 0 = [s0, s1, s2, s3]" "s0 < 64" "s1 < 64"
    by blast
  then show ?case by (simp add: b64_table)
qed simp

lemma ascii_encode_decode:
  "ascii_decode bs = Some s \<Longrightarrow> ascii_encode s = Some bs"
proof -
  assume d: "ascii_decode bs = Some s"
  then have lt: "\<forall>b \<in> set bs. b < 128" and s: "s = map (\<lambda>b. char_of (unat b)) bs"
    by (auto simp: ascii_decode_def split: if_splits)
  have ch: "of_char (char_of (unat b) :: char) = unat b" if "b < 128" for b :: byte
    using that by (simp add: of_char_of word_less_nat_alt)
  have "map (\<lambda>c. of_nat (of_char c)) s = bs"
    using lt ch by (simp add: s comp_def map_idI)
  moreover have "\<forall>c \<in> set s. of_char c < (128::nat)"
    using lt ch by (auto simp: s word_less_nat_alt)
  ultimately show ?thesis by (simp add: ascii_encode_def)
qed

lemma ascii_decode_b64encode:
  "ascii_decode (b64encode bs) = Some (map (\<lambda>b. char_of (unat b)) (b64encode bs))"
  using b64encode_ascii [of bs] by (simp add: ascii_decode_def)

lemma b64decode_text: "ascii_decode (b64encode bs) = Some s \<Longrightarrow> b64decode s = Some bs"
proof -
  assume "ascii_decode (b64encode bs) = Some s"
  then have "ascii_encode s = Some (b64encode bs)"
    by (rule ascii_encode_decode)
  then show ?thesis
    by (simp add: b64decode_def b64decode_bytes_encode)
qed

lemma b64encode_nonempty: "bs \<noteq> [] \<Longrightarrow> b64encode bs \<noteq> []"
  by (induction bs rule: b64encode.induct) (simp_all add: sextets3_def)

text \<open>
  The model is the standard one: its text is ASCII, decoding gives back
  exactly the encoded bytes, and there are four characters for every started
  group of three bytes.
\<close>

lemma b64_roundtrip: "\<exists>s. ascii_decode (b64encode bs) = Some s \<and> b64decode s = Some bs"
  using ascii_decode_b64encode b64decode_text by blast

lemma b64encode_length: "length (b64encode bs) = 4 * ((length bs + 2) div 3)"
  by (induction bs rule: b64encode.induct) (simp_all add: sextets3_def, presburger)

end
