(* ===== verification/Runtime.thy ===== *)
theory Runtime
  imports Base64
begin

text \<open>
  The process state the agent shares between requests, and the two operations of
  \<open>src/agent.py\<close> that act on it: \<open>run_code\<close> (lines 79-88: redirect
  \<open>sys.stdout\<close> into a fresh buffer, \<open>exec\<close> the snippet with \<open>df\<close>,
  \<open>pd\<close>, \<open>plt\<close>, \<open>sns\<close> in scope, restore \<open>sys.stdout\<close> in a \<open>finally\<close>)
  and \<open>grab_plot\<close> (lines 91-100: if a figure is open, render the current one as
  PNG, base64-encode it, close every figure).

  The world is a record: the environment variables, the dataset, the current
  \<open>sys.stdout\<close> (the console or the capture buffer of \<open>run_code\<close>), the text
  written to each, and pyplot's open figures in the order of pyplot's figure
  manager (the last one is the current figure, as \<open>plt.gcf()\<close> returns it). The
  Python interpreter that runs the snippet is a parameter of type
  \<open>exec_sem\<close>; \<open>exec_stmts\<close> is one such interpreter for snippets that
  print, draw, mutate the dataset or raise, used to run concrete examples.
\<close>

datatype sink = Console | Capture

record ('df, 'fig) world =
  environ :: "string \<Rightarrow> string option"
  df :: 'df
  stdout :: sink
  console :: string
  captured :: string
  figs :: "(nat \<times> 'fig) list"

subsection \<open>pyplot\<close>

definition get_fignums :: "('df, 'fig) world \<Rightarrow> nat list" where
  "get_fignums w = sort (map fst (figs w))"

definition plt_close_all :: "('df, 'fig) world \<Rightarrow> ('df, 'fig) world" where
  "plt_close_all w = w\<lparr>figs := []\<rparr>"

text \<open>\<open>plt.figure()\<close>: a new figure numbered one above the largest, made current.\<close>

definition plt_figure :: "'fig \<Rightarrow> ('df, 'fig) world \<Rightarrow> ('df, 'fig) world" where
  "plt_figure f w = w\<lparr>figs := figs w @ [(Suc (fold max (map fst (figs w)) 0), f)]\<rparr>"

text \<open>A plotting call draws on the current figure, creating figure 1 if none is open.\<close>

definition plt_draw :: "('fig option \<Rightarrow> 'fig) \<Rightarrow> ('df, 'fig) world \<Rightarrow> ('df, 'fig) world" where
  "plt_draw g w =
     (case figs w of
        [] \<Rightarrow> w\<lparr>figs := [(1, g None)]\<rparr>
      | fs \<Rightarrow> w\<lparr>figs := butlast fs @ [(fst (last fs), g (Some (snd (last fs))))]\<rparr>)"

definition py_print :: "string \<Rightarrow> ('df, 'fig) world \<Rightarrow> ('df, 'fig) world" where
  "py_print s w =
     (case stdout w of
        Console \<Rightarrow> w\<lparr>console := console w @ s @ ''\<newline>''\<rparr>
      | Capture \<Rightarrow> w\<lparr>captured := captured w @ s @ ''\<newline>''\<rparr>)"

subsection \<open>Executing the snippet\<close>

type_synonym ('df, 'fig) exec_sem =
  "string \<Rightarrow> string list \<Rightarrow> ('df, 'fig) world \<Rightarrow> (pyexn \<times> ('df, 'fig) world) + ('df, 'fig) world"

definition exec_scope :: "string list" where
  "exec_scope = [''df'', ''pd'', ''plt'', ''sns'']"

definition run_code :: "('df, 'fig) exec_sem \<Rightarrow> string \<Rightarrow> ('df, 'fig) world
    \<Rightarrow> (pyexn + string) \<times> ('df, 'fig) world" where
  "run_code ex code w =
     (let old = stdout w;
          w1 = w\<lparr>stdout := Capture, captured := []\<rparr>
      in case ex code exec_scope w1 of
           Inl (e, w2) \<Rightarrow> (Inl e, w2\<lparr>stdout := old\<rparr>)
         | Inr w2 \<Rightarrow> (Inr (py_strip (captured w2)), w2\<lparr>stdout := old\<rparr>))"

subsection \<open>Capturing the chart\<close>

record savefig_opts =
  sf_format :: string
  sf_bbox :: string
  sf_dpi :: nat
  sf_facecolor :: string

definition grab_opts :: savefig_opts where
  "grab_opts = \<lparr>sf_format = ''png'', sf_bbox = ''tight'', sf_dpi = 150, sf_facecolor = ''white''\<rparr>"

type_synonym 'fig renderer = "'fig \<Rightarrow> savefig_opts \<Rightarrow> pyexn + byte list"

definition grab_plot :: "'fig renderer \<Rightarrow> ('df, 'fig) world
    \<Rightarrow> (pyexn + string option) \<times> ('df, 'fig) world" where
  "grab_plot savefig w =
     (if get_fignums w = [] then (Inr None, w)
      else case savefig (snd (last (figs w))) grab_opts of
             Inl e \<Rightarrow> (Inl e, w)
           | Inr png \<Rightarrow>
               (case ascii_decode (b64encode png) of
                  None \<Rightarrow> (Inl (PyExn ''UnicodeDecodeError'' ''invalid start byte''), w)
                | Some img \<Rightarrow> (Inr (Some img), plt_close_all w)))"

subsection \<open>A small interpreter for generated snippets\<close>

datatype ('df, 'fig) stmt =
    Print string
  | Figure 'fig
  | Plot "'fig option \<Rightarrow> 'fig"
  | Show
  | SetDf "'df \<Rightarrow> 'df"
  | Raise pyexn

text \<open>\<open>Show\<close> does nothing: \<open>src/agent.py\<close> line 17 replaces \<open>plt.show\<close> by a no-op.\<close>

fun exec_stmts :: "('df, 'fig) stmt list \<Rightarrow> ('df, 'fig) world
    \<Rightarrow> (pyexn \<times> ('df, 'fig) world) + ('df, 'fig) world" where
  "exec_stmts [] w = Inr w"
| "exec_stmts (Print s # ss) w = exec_stmts ss (py_print s w)"
| "exec_stmts (Figure f # ss) w = exec_stmts ss (plt_figure f w)"
| "exec_stmts (Plot g # ss) w = exec_stmts ss (plt_draw g w)"
| "exec_stmts (Show # ss) w = exec_stmts ss w"
| "exec_stmts (SetDf g # ss) w = exec_stmts ss (w\<lparr>df := g (df w)\<rparr>)"
| "exec_stmts (Raise e # ss) w = Inl (e, w)"

definition stmt_exec :: "(string \<Rightarrow> ('df, 'fig) stmt list) \<Rightarrow> ('df, 'fig) exec_sem" where
  "stmt_exec parse code scope w = exec_stmts (parse code) w"

text \<open>What a snippet prints, line by line.\<close>

fun printed :: "('df, 'fig) stmt list \<Rightarrow> string" where
  "printed [] = []"
| "printed (Print s # ss) = s @ ''\<newline>'' @ printed ss"
| "printed (_ # ss) = printed ss"

fun raises :: "('df, 'fig) stmt list \<Rightarrow> bool" where
  "raises [] = False"
| "raises (Raise _ # ss) = True"
| "raises (_ # ss) = raises ss"

fun draws :: "('df, 'fig) stmt list \<Rightarrow> bool" where
  "draws [] = False"
| "draws (Figure _ # ss) = True"
| "draws (Plot _ # ss) = True"
| "draws (_ # ss) = draws ss"


subsection \<open>The interpreter writes only to the current sink\<close>

lemma py_print_Capture [simp]:
  "stdout w = Capture \<Longrightarrow> py_print s w = w\<lparr>captured := captured w @ s @ ''\<newline>''\<rparr>"
  by (simp add: py_print_def)

lemma exec_stmts_capture:
  "stdout w = Capture \<Longrightarrow> exec_stmts ss w = Inr w' \<Longrightarrow>
   stdout w' = Capture \<and> console w' = console w \<and> environ w' = environ w
   \<and> captured w' = captured w @ printed ss"
proof (induction ss w rule: exec_stmts.induct)
  case (3 f ss w)
  then show ?case by (simp add: plt_figure_def)
next
  case (4 g ss w)
  then show ?case by (simp add: plt_draw_def split: list.splits)
qed auto

lemma exec_stmts_total: "\<not> raises ss \<Longrightarrow> \<exists>w'. exec_stmts ss w = Inr w'"
  by (induction ss w rule: exec_stmts.induct) auto

lemma exec_stmts_raises: "raises ss \<Longrightarrow> \<exists>e w'. exec_stmts ss w = Inl (e, w')"
  by (induction ss w rule: exec_stmts.induct) auto

lemma exec_stmts_figs_kept:
  "figs w \<noteq> [] \<Longrightarrow> exec_stmts ss w = Inr w' \<Longrightarrow> figs w' \<noteq> []"
  by (induction ss w rule: exec_stmts.induct)
     (auto simp: plt_figure_def plt_draw_def py_print_def split: list.splits sink.splits)

lemma exec_stmts_figs:
  "exec_stmts ss w = Inr w' \<Longrightarrow> (figs w' = [] \<longleftrightarrow> figs w = [] \<and> \<not> draws ss)"
proof (induction ss w rule: exec_stmts.induct)
  case (3 f ss w)
  then show ?case
    using exec_stmts_figs_kept [of "plt_figure f w" ss w'] by (simp add: plt_figure_def)
next
  case (4 g ss w)
  then show ?case
    using exec_stmts_figs_kept [of "plt_draw g w" ss w']
    by (simp add: plt_draw_def split: list.splits)
qed (auto simp: py_print_def split: sink.splits)

subsection \<open>run_code\<close>

lemma exec_stmts_raise_in: "exec_stmts ss w = Inl (e, w') \<Longrightarrow> Raise e \<in> set ss"
  by (induction ss w rule: exec_stmts.induct) auto

lemma run_code_cases:
  "run_code ex code w = (r, w') \<Longrightarrow>
   (\<exists>e w2. ex code exec_scope (w\<lparr>stdout := Capture, captured := []\<rparr>) = Inl (e, w2)
          \<and> r = Inl e \<and> w' = w2\<lparr>stdout := stdout w\<rparr>)
   \<or> (\<exists>w2. ex code exec_scope (w\<lparr>stdout := Capture, captured := []\<rparr>) = Inr w2
          \<and> r = Inr (py_strip (captured w2)) \<and> w' = w2\<lparr>stdout := stdout w\<rparr>)"
  by (auto simp: run_code_def Let_def split: sum.splits prod.splits)

text \<open>
  C6: \<open>run_code\<close> gives \<open>sys.stdout\<close> back on every exit path, whatever the
  snippet does, raising included.
\<close>

theorem run_code_restores_stdout: "stdout (snd (run_code ex code w)) = stdout w"
  by (cases "run_code ex code w") (auto dest!: run_code_cases)

lemma run_code_stmt:
  assumes "\<not> raises (parse code)"
  shows "\<exists>w'. run_code (stmt_exec parse) code w = (Inr (py_strip (printed (parse code))), w')
           \<and> console w' = console w \<and> stdout w' = stdout w \<and> environ w' = environ w
           \<and> (figs w' = [] \<longleftrightarrow> figs w = [] \<and> \<not> draws (parse code))"
proof -
  let ?w1 = "w\<lparr>stdout := Capture, captured := []\<rparr>"
  from exec_stmts_total [OF assms] obtain w2 where ex: "exec_stmts (parse code) ?w1 = Inr w2"
    by blast
  from exec_stmts_capture [OF _ ex] exec_stmts_figs [OF ex] ex show ?thesis
    by (simp add: run_code_def stmt_exec_def)
qed

text \<open>
  C11: a snippet that does not raise has its printed lines, stripped, as the
  result; nothing of it reaches the console.
\<close>

theorem run_code_captures:
  assumes "\<not> raises (parse code)"
  shows "fst (run_code (stmt_exec parse) code w) = Inr (py_strip (printed (parse code)))
         \<and> console (snd (run_code (stmt_exec parse) code w)) = console w"
  using run_code_stmt [of parse code w] assms by auto

subsection \<open>grab_plot\<close>

lemma get_fignums_Nil [simp]: "get_fignums w = [] \<longleftrightarrow> figs w = []"
  unfolding get_fignums_def by (metis length_0_conv length_map length_sort)

lemma grab_plot_no_figure: "figs w = [] \<Longrightarrow> grab_plot sf w = (Inr None, w)"
  by (simp add: grab_plot_def)

lemma grab_plot_cases:
  "grab_plot sf w = (r, w') \<Longrightarrow>
     (figs w = [] \<and> r = Inr None \<and> w' = w)
   \<or> (\<exists>png. figs w \<noteq> [] \<and> sf (snd (last (figs w))) grab_opts = Inr png
        \<and> r = Inr (Some (map (\<lambda>b. char_of (unat b)) (b64encode png)))
        \<and> w' = plt_close_all w)
   \<or> (\<exists>e. figs w \<noteq> [] \<and> sf (snd (last (figs w))) grab_opts = Inl e \<and> r = Inl e \<and> w' = w)"
  by (auto simp: grab_plot_def ascii_decode_b64encode split: if_splits sum.splits)

lemma grab_plot_no_raise:
  assumes "\<And>f. \<exists>png. sf f grab_opts = Inr png"
  shows "\<exists>p w'. grab_plot sf w = (Inr p, w')"
proof (cases "figs w = []")
  case True
  then show ?thesis by (simp add: grab_plot_no_figure)
next
  case False
  from assms obtain png where "sf (snd (last (figs w))) grab_opts = Inr png" by blast
  with False show ?thesis by (simp add: grab_plot_def ascii_decode_b64encode)
qed

text \<open>
  C12: after a chart has been captured every figure is closed, so a second
  \<open>grab_plot\<close> with no drawing in between returns \<open>None\<close> and changes nothing.
\<close>

theorem grab_plot_idempotent:
  assumes "grab_plot sf w = (Inr (Some img), w')"
  shows "grab_plot sf w' = (Inr None, w')"
proof -
  from grab_plot_cases [OF assms] have "w' = plt_close_all w"
    by auto
  then show ?thesis
    by (simp add: grab_plot_no_figure plt_close_all_def)
qed

text \<open>
  C13: the payload is the base64 text of what \<open>savefig\<close> rendered for the
  current figure: decoding it gives those bytes back.
\<close>

theorem grab_plot_payload:
  assumes "grab_plot sf w = (Inr (Some img), w')"
  shows "\<exists>png. figs w \<noteq> [] \<and> sf (snd (last (figs w))) grab_opts = Inr png
           \<and> b64decode img = Some png"
proof -
  from grab_plot_cases [OF assms] obtain png where
    "figs w \<noteq> []" and sf: "sf (snd (last (figs w))) grab_opts = Inr png"
    and img: "img = map (\<lambda>b. char_of (unat b)) (b64encode png)"
    by auto
  moreover have "b64decode img = Some png"
    using img ascii_decode_b64encode b64decode_text by metis
  ultimately show ?thesis by blast
qed

text \<open>
  C14: the only exception \<open>grab_plot\<close> can raise is one raised by
  \<open>savefig\<close>; the \<open>.decode()\<close> of the base64 bytes never fails.
\<close>

theorem grab_plot_raises_only_savefig:
  assumes "grab_plot sf w = (Inl e, w')"
  shows "figs w \<noteq> [] \<and> sf (snd (last (figs w))) grab_opts = Inl e \<and> w' = w"
  using grab_plot_cases [OF assms] by auto

end
