(* ===== verification/Agent.thy ===== *)
theory Agent
  imports Complex_Main Extract Runtime
begin

text \<open>
  The agent module \<open>src/agent.py\<close> apart from the extractor and the runtime
  operations: the dataset loader (lines 19-23), the system prompt (lines 26-40),
  the model client \<open>call_llm\<close> (lines 45-63) and the orchestrator \<open>ask\<close>
  (lines 103-131). The remote inference service, the Python interpreter and the
  PNG renderer are parameters, gathered in \<open>agent_env\<close>; every exception the
  source can raise is an \<open>Inl\<close>, and \<open>ask\<close> returns \<open>Inl\<close> exactly where an
  exception escapes it.
\<close>

subsection \<open>Dataset and prompt\<close>

text \<open>\<open>sns.load_dataset('titanic')\<close>, and \<open>pd.read_csv('titanic.csv')\<close> if it raises.\<close>

definition load_df :: "pyexn + 'df \<Rightarrow> pyexn + 'df \<Rightarrow> pyexn + 'df" where
  "load_df seaborn csv = (case seaborn of Inr d \<Rightarrow> Inr d | Inl _ \<Rightarrow> csv)"

text \<open>\<open>SYSTEM_PROMPT\<close>, given \<open>df.dtypes.to_string()\<close> and \<open>df.head(3).to_string()\<close>.\<close>

definition system_prompt :: "string \<Rightarrow> string \<Rightarrow> string" where
  "system_prompt dtypes head3 =
     ''You are a data analyst. You have a pandas DataFrame called `df` with Titanic data.\<newline>\<newline>''
     @ ''Columns and dtypes:\<newline>'' @ dtypes @ ''\<newline>\<newline>First 3 rows:\<newline>'' @ head3
     @ ''\<newline>\<newline>When the user asks a question:\<newline>''
     @ ''1. Write Python code using pandas to answer it. The df is already loaded.\<newline>''
     @ ''2. Use print() to output the answer.\<newline>''
     @ ''3. If the user asks for a chart/plot/visualization, use matplotlib (plt). ''
     @ ''Call plt.figure() first. Do NOT call plt.show().\<newline>''
     @ ''4. Keep code short and simple.\<newline>\<newline>''
     @ ''IMPORTANT: Only output Python code inside ```python ... ``` block. Nothing else.''"

subsection \<open>Model client\<close>

record chat_request =
  req_messages :: "(string \<times> string) list"
  req_model :: string
  req_temperature :: rat
  req_max_tokens :: nat

text \<open>
  \<open>InferenceClient(token=...).chat_completion(...)\<close>: given the token and the
  request, an exception or the \<open>message.content\<close> of each choice (\<open>None\<close> when
  the service sends no content).
\<close>

type_synonym hf_client = "string \<Rightarrow> chat_request \<Rightarrow> pyexn + string option list"

definition MODEL_ID :: string where
  "MODEL_ID = ''Qwen/Qwen2.5-72B-Instruct''"

definition token_var :: string where
  "token_var = ''HUGGINGFACEHUB_API_TOKEN''"

definition token_missing_msg :: string where
  "token_missing_msg =
     ''HUGGINGFACEHUB_API_TOKEN is not set. Add it to your .env file or Streamlit secrets.''"

definition llm_request :: "string \<Rightarrow> string \<Rightarrow> chat_request" where
  "llm_request sys user =
     \<lparr>req_messages = [(''system'', sys), (''user'', user)], req_model = MODEL_ID,
      req_temperature = 1 / 10, req_max_tokens = 1024\<rparr>"

definition call_llm :: "(string \<Rightarrow> string option) \<Rightarrow> hf_client \<Rightarrow> string \<Rightarrow> string
    \<Rightarrow> pyexn + string option" where
  "call_llm env client sys user =
     (let token = (case env token_var of None \<Rightarrow> [] | Some t \<Rightarrow> t)
      in if token = [] then Inl (PyExn ''RuntimeError'' token_missing_msg)
         else (case client token (llm_request sys user) of
                 Inl e \<Rightarrow> Inl e
               | Inr [] \<Rightarrow> Inl (PyExn ''IndexError'' ''list index out of range'')
               | Inr (c # _) \<Rightarrow> Inr c))"

subsection \<open>The orchestrator\<close>

record ('df, 'fig) agent_env =
  ae_exec :: "('df, 'fig) exec_sem"
  ae_client :: hf_client
  ae_savefig :: "'fig renderer"

record ask_result =
  answer :: string
  plot :: "string option"

definition no_response_msg :: string where
  "no_response_msg = ''No response from model. Try rephrasing.''"

definition chart_ack :: string where
  "chart_ack = ''Here's the chart you asked for.''"

definition no_output_msg :: string where
  "no_output_msg = ''Done, but there was no output. Try rephrasing?''"

text \<open>\<open>re.findall\<close> applied to \<open>None\<close>, as \<open>extract_code(raw)\<close> does when the reply has no content.\<close>

definition findall_type_error :: pyexn where
  "findall_type_error = PyExn ''TypeError'' ''expected string or bytes-like object''"

definition no_code_answer :: "string \<Rightarrow> ask_result" where
  "no_code_answer raw =
     \<lparr>answer = (if py_strip raw \<noteq> [] then py_strip raw else no_response_msg), plot = None\<rparr>"

definition pick_answer :: "string \<Rightarrow> string option \<Rightarrow> string" where
  "pick_answer output p =
     (if output \<noteq> [] then output
      else if (case p of Some s \<Rightarrow> s \<noteq> [] | None \<Rightarrow> False) then chart_ack
      else no_output_msg)"

text \<open>
  \<open>ask\<close> (lines 103-131). Its two handlers are \<open>except Exception\<close> (108, 118):
  an exception that is not an \<open>Exception\<close>, such as the \<open>SystemExit\<close> of a
  snippet calling \<open>exit()\<close>, passes through and escapes \<open>ask\<close>.
\<close>

definition ask :: "('df, 'fig) agent_env \<Rightarrow> string \<Rightarrow> string \<Rightarrow> ('df, 'fig) world
    \<Rightarrow> (pyexn + ask_result) \<times> ('df, 'fig) world" where
  "ask ae sp question w0 =
     (let w = plt_close_all w0
      in case call_llm (environ w) (ae_client ae) sp question of
           Inl e \<Rightarrow>
             if is_exception e then (Inr \<lparr>answer = ''LLM call failed: '' @ exn_text e, plot = None\<rparr>, w)
             else (Inl e, w)
         | Inr None \<Rightarrow> (Inl findall_type_error, w)
         | Inr (Some raw) \<Rightarrow>
             (case extract_code raw of
                None \<Rightarrow> (Inr (no_code_answer raw), w)
              | Some code \<Rightarrow>
                  if code = [] then (Inr (no_code_answer raw), w)
                  else (case run_code (ae_exec ae) code w of
                          (Inl e, w1) \<Rightarrow>
                            if is_exception e
                            then (Inr \<lparr>answer = ''Code execution error: '' @ exn_text e, plot = None\<rparr>, w1)
                            else (Inl e, w1)
                        | (Inr output, w1) \<Rightarrow>
                            (case grab_plot (ae_savefig ae) w1 of
                               (Inl e, w2) \<Rightarrow> (Inl e, w2)
                             | (Inr p, w2) \<Rightarrow>
                                 (Inr \<lparr>answer = pick_answer output p, plot = p\<rparr>, w2)))))"


subsection \<open>The branches of ask\<close>

lemma plt_close_all_fields [simp]:
  "environ (plt_close_all w) = environ w" "stdout (plt_close_all w) = stdout w"
  "figs (plt_close_all w) = []" "plt_close_all (w\<lparr>figs := fs\<rparr>) = plt_close_all w"
  by (simp_all add: plt_close_all_def)

lemmas ask_unfold = ask_def Let_def

lemma ask_code_branch:
  "call_llm (environ w) (ae_client ae) sp q = Inr (Some raw) \<Longrightarrow>
   extract_code raw = Some code \<Longrightarrow> code \<noteq> [] \<Longrightarrow>
   ask ae sp q w =
     (case run_code (ae_exec ae) code (plt_close_all w) of
        (Inl e, w1) \<Rightarrow>
          if is_exception e then (Inr \<lparr>answer = ''Code execution error: '' @ exn_text e, plot = None\<rparr>, w1)
          else (Inl e, w1)
      | (Inr output, w1) \<Rightarrow>
          (case grab_plot (ae_savefig ae) w1 of
             (Inl e, w2) \<Rightarrow> (Inl e, w2)
           | (Inr p, w2) \<Rightarrow> (Inr \<lparr>answer = pick_answer output p, plot = p\<rparr>, w2)))"
  by (simp add: ask_unfold)

text \<open>
  C1: \<open>ask\<close> never raises past its boundary as long as the model's reply has a
  text, the model call and the snippet raise only \<open>Exception\<close>s (what the
  two \<open>except Exception\<close> clauses catch) and rendering the figure does not
  fail; every other failure becomes an answer.
\<close>

theorem ask_total:
  assumes "call_llm (environ w) (ae_client ae) sp q \<noteq> Inr None"
    and "\<forall>e. call_llm (environ w) (ae_client ae) sp q = Inl e \<longrightarrow> is_exception e"
    and "\<forall>code w' e w''. ae_exec ae code exec_scope w' = Inl (e, w'') \<longrightarrow> is_exception e"
    and "\<And>f. \<exists>png. ae_savefig ae f grab_opts = Inr png"
  shows "\<exists>r. fst (ask ae sp q w) = Inr r"
proof (cases "call_llm (environ w) (ae_client ae) sp q")
  case (Inl e)
  then show ?thesis using assms(2) by (simp add: ask_unfold)
next
  case (Inr c)
  with assms(1) obtain raw where raw: "c = Some raw" by auto
  show ?thesis
  proof (cases "extract_code raw = None \<or> extract_code raw = Some []")
    case True
    with Inr raw show ?thesis by (auto simp: ask_unfold)
  next
    case False
    then obtain code where code: "extract_code raw = Some code" "code \<noteq> []" by auto
    obtain r1 w1 where rc: "run_code (ae_exec ae) code (plt_close_all w) = (r1, w1)"
      by fastforce
    have exn: "is_exception e" if "r1 = Inl e" for e
      using run_code_cases [OF rc [unfolded that]] assms(3) by auto
    have "\<exists>p w2. grab_plot (ae_savefig ae) w1 = (Inr p, w2)"
      using assms(4) by (rule grab_plot_no_raise)
    then show ?thesis
      using ask_code_branch [OF Inr [unfolded raw] code] rc exn
      by (cases r1) auto
  qed
qed

text \<open>
  C2: a failed model call is reported as \<open>LLM call failed: <kind>: <message>\<close>,
  no plot, when its exception is an \<open>Exception\<close>; any other exception escapes
  \<open>ask\<close>. Either way the figures have been closed.
\<close>

theorem ask_llm_failed:
  assumes "call_llm (environ w) (ae_client ae) sp q = Inl e"
  shows "ask ae sp q w =
           (if is_exception e
            then (Inr \<lparr>answer = ''LLM call failed: '' @ exn_text e, plot = None\<rparr>, plt_close_all w)
            else (Inl e, plt_close_all w))"
  using assms by (simp add: ask_unfold)

text \<open>
  C3: a reply without a code block is answered with the reply itself, stripped,
  or with the fixed fallback when it is blank; no plot.
\<close>

theorem ask_no_code:
  assumes "call_llm (environ w) (ae_client ae) sp q = Inr (Some raw)"
    and "extract_code raw = None"
  shows "fst (ask ae sp q w) =
           Inr \<lparr>answer = (if py_strip raw \<noteq> [] then py_strip raw
                           else ''No response from model. Try rephrasing.''), plot = None\<rparr>"
  using assms by (simp add: ask_unfold no_code_answer_def no_response_msg_def)

text \<open>
  C4: a snippet that raises an \<open>Exception\<close> is reported as
  \<open>Code execution error: <kind>: <message>\<close>, no plot; one that raises any other
  exception (\<open>SystemExit\<close> from \<open>exit()\<close>) makes \<open>ask\<close> raise it. In both
  cases the chart step is skipped.
\<close>

theorem ask_exec_error:
  assumes "call_llm (environ w) (ae_client ae) sp q = Inr (Some raw)"
    and "extract_code raw = Some code" and "code \<noteq> []"
    and "run_code (ae_exec ae) code (plt_close_all w) = (Inl e, w1)"
  shows "ask ae sp q w =
           (if is_exception e
            then (Inr \<lparr>answer = ''Code execution error: '' @ exn_text e, plot = None\<rparr>, w1)
            else (Inl e, w1))"
  using ask_code_branch [OF assms(1-3)] assms(4) by simp

text \<open>
  C5: after a successful run the answer is the captured output if there is any,
  else the chart acknowledgement if a chart was captured, else the no-output
  message; the plot is what \<open>grab_plot\<close> returned.
\<close>

theorem ask_answer_priority:
  assumes "call_llm (environ w) (ae_client ae) sp q = Inr (Some raw)"
    and "extract_code raw = Some code" and "code \<noteq> []"
    and "run_code (ae_exec ae) code (plt_close_all w) = (Inr output, w1)"
    and "grab_plot (ae_savefig ae) w1 = (Inr p, w2)"
  shows "ask ae sp q w =
           (Inr \<lparr>answer = (if output \<noteq> [] then output
                            else if p \<noteq> None \<and> p \<noteq> Some [] then ''Here's the chart you asked for.''
                            else ''Done, but there was no output. Try rephrasing?''),
                 plot = p\<rparr>, w2)"
  using ask_code_branch [OF assms(1-3)] assms(4,5)
  by (cases p) (auto simp: pick_answer_def chart_ack_def no_output_msg_def)

text \<open>
  C15: \<open>ask\<close> starts from a clean canvas: whatever figures a previous request
  left open, the result and the final state are the same.
\<close>

theorem ask_resets_figures: "ask ae sp q (w\<lparr>figs := fs\<rparr>) = ask ae sp q w"
  by (simp add: ask_unfold)

text \<open>
  C16: without a token (unset or empty) the model call fails with
  \<open>RuntimeError\<close> before any request, whatever the service would answer.
\<close>

theorem call_llm_missing_token:
  assumes "env ''HUGGINGFACEHUB_API_TOKEN'' = None \<or> env ''HUGGINGFACEHUB_API_TOKEN'' = Some []"
  shows "call_llm env client sys user =
           Inl (PyExn ''RuntimeError''
             ''HUGGINGFACEHUB_API_TOKEN is not set. Add it to your .env file or Streamlit secrets.'')"
  using assms by (auto simp: call_llm_def token_var_def token_missing_msg_def)

text \<open>
  C17: the service is consulted through one request only: the token, and the
  system and user messages in that order for the fixed model, temperature 0.1 and
  1024 tokens. Two services that agree on that request give the same result.
\<close>

theorem call_llm_single_request:
  assumes "call_llm env client sys user \<noteq> call_llm env client' sys user"
  shows "\<exists>t. env ''HUGGINGFACEHUB_API_TOKEN'' = Some t \<and> t \<noteq> []
           \<and> client t \<lparr>req_messages = [(''system'', sys), (''user'', user)],
                        req_model = ''Qwen/Qwen2.5-72B-Instruct'', req_temperature = 1 / 10,
                        req_max_tokens = 1024\<rparr>
             \<noteq> client' t \<lparr>req_messages = [(''system'', sys), (''user'', user)],
                        req_model = ''Qwen/Qwen2.5-72B-Instruct'', req_temperature = 1 / 10,
                        req_max_tokens = 1024\<rparr>"
  using assms
  by (auto simp: call_llm_def token_var_def llm_request_def MODEL_ID_def Let_def
      split: option.splits if_splits)

text \<open>
  C18: a reply whose content is \<open>None\<close> makes \<open>extract_code\<close> raise
  \<open>TypeError\<close> outside every \<open>try\<close> of \<open>ask\<close>: the exception escapes.
\<close>

theorem ask_none_content_raises:
  assumes "call_llm (environ w) (ae_client ae) sp q = Inr None"
  shows "ask ae sp q w =
           (Inl (PyExn ''TypeError'' ''expected string or bytes-like object''), plt_close_all w)"
  using assms by (simp add: ask_unfold findall_type_error_def)

text \<open>
  C19: an empty code block is not run: \<open>if not code\<close> treats the empty string
  like a missing block, and the raw reply, fence included, is returned as the answer.
\<close>

theorem ask_empty_block_not_run:
  assumes "call_llm (environ w) (ae_client ae) sp q = Inr (Some raw)"
    and "extract_code raw = Some []"
  shows "ask ae sp q w =
           (Inr \<lparr>answer = (if py_strip raw \<noteq> [] then py_strip raw
                           else ''No response from model. Try rephrasing.''), plot = None\<rparr>,
            plt_close_all w)"
  using assms by (simp add: ask_unfold no_code_answer_def no_response_msg_def)

lemma ask_stmt_run:
  assumes "call_llm (environ w) (ae_client ae) sp q = Inr (Some raw)"
    and "extract_code raw = Some code" and "code \<noteq> []"
    and "ae_exec ae = stmt_exec parse" and "\<not> raises (parse code)"
  shows "\<exists>w1. ask ae sp q w =
           (case grab_plot (ae_savefig ae) w1 of
              (Inl e, w2) \<Rightarrow> (Inl e, w2)
            | (Inr p, w2) \<Rightarrow>
                (Inr \<lparr>answer = pick_answer (py_strip (printed (parse code))) p, plot = p\<rparr>, w2))
         \<and> (figs w1 = [] \<longleftrightarrow> \<not> draws (parse code))"
  using run_code_stmt [of parse code "plt_close_all w"] assms(5) ask_code_branch [OF assms(1-3)] assms(4)
  by auto

text \<open>
  C20: a snippet that prints a non-blank text and draws nothing yields that
  text, stripped, as the answer and no plot (the \<open>print("42")\<close> example).
\<close>

theorem ask_print_only:
  assumes "call_llm (environ w) (ae_client ae) sp q = Inr (Some raw)"
    and "extract_code raw = Some code" and "code \<noteq> []"
    and "ae_exec ae = stmt_exec parse" and "\<not> raises (parse code)"
    and "\<not> draws (parse code)" and "py_strip (printed (parse code)) \<noteq> []"
  shows "fst (ask ae sp q w) = Inr \<lparr>answer = py_strip (printed (parse code)), plot = None\<rparr>"
  using ask_stmt_run [OF assms(1-5)] assms(6,7)
  by (auto simp: grab_plot_no_figure pick_answer_def)

text \<open>
  C21: a snippet that draws and prints nothing yields the chart acknowledgement
  and a non-empty payload that decodes to the rendered PNG bytes.
\<close>

theorem ask_chart_only:
  assumes "call_llm (environ w) (ae_client ae) sp q = Inr (Some raw)"
    and "extract_code raw = Some code" and "code \<noteq> []"
    and "ae_exec ae = stmt_exec parse" and "\<not> raises (parse code)"
    and "draws (parse code)" and "py_strip (printed (parse code)) = []"
    and "\<And>f. \<exists>png. ae_savefig ae f grab_opts = Inr png \<and> png \<noteq> []"
  shows "\<exists>img png. fst (ask ae sp q w) = Inr \<lparr>answer = ''Here's the chart you asked for.'', plot = Some img\<rparr>
           \<and> img \<noteq> [] \<and> b64decode img = Some png \<and> png \<noteq> []"
proof -
  from ask_stmt_run [OF assms(1-5)] assms(6) obtain w1 where
    a: "ask ae sp q w =
           (case grab_plot (ae_savefig ae) w1 of
              (Inl e, w2) \<Rightarrow> (Inl e, w2)
            | (Inr p, w2) \<Rightarrow>
                (Inr \<lparr>answer = pick_answer (py_strip (printed (parse code))) p, plot = p\<rparr>, w2))"
    and f: "figs w1 \<noteq> []"
    by blast
  from assms(8) obtain png where sf: "ae_savefig ae (snd (last (figs w1))) grab_opts = Inr png"
    and ne: "png \<noteq> []"
    by blast
  let ?img = "map (\<lambda>b. char_of (unat b)) (b64encode png)"
  have g: "grab_plot (ae_savefig ae) w1 = (Inr (Some ?img), plt_close_all w1)"
    using f sf by (simp add: grab_plot_def ascii_decode_b64encode)
  have "?img \<noteq> []" using b64encode_nonempty [OF ne] by simp
  moreover have "b64decode ?img = Some png"
    using ascii_decode_b64encode b64decode_text by metis
  ultimately show ?thesis
    using a g assms(7) ne by (simp add: pick_answer_def chart_ack_def)
qed

text \<open>
  C22: whatever path \<open>ask\<close> takes, \<open>sys.stdout\<close> is the same afterwards as
  before, so a later request or the server's own logging writes where it did.
\<close>

theorem ask_keeps_stdout: "stdout (snd (ask ae sp q w)) = stdout w"
proof -
  have rc: "stdout w1 = stdout w" if "run_code ex code (plt_close_all w) = (r, w1)" for ex code r w1
    using run_code_cases [OF that] by auto
  have gp: "stdout w2 = stdout w1" if "grab_plot sf w1 = (r, w2)" for sf w1 r w2
    using grab_plot_cases [OF that] by (auto simp: plt_close_all_def)
  show ?thesis
    unfolding ask_unfold
    by (auto split: sum.splits option.splits prod.splits if_splits dest!: rc gp)
qed


subsection \<open>Where a returned plot comes from\<close>

lemma grab_plot_some_decodes:
  "grab_plot sf w1 = (Inr (Some img), w2) \<Longrightarrow>
   (\<exists>f png. sf f grab_opts = Inr png \<and> b64decode img = Some png) \<and> figs w2 = []"
  by (drule grab_plot_cases)
     (auto simp: plt_close_all_def intro: b64decode_text [OF ascii_decode_b64encode])

lemma ask_plot_from_grab:
  assumes "fst (ask ae sp q w) = Inr r" and "plot r = Some img"
  shows "\<exists>w1. grab_plot (ae_savefig ae) w1 = (Inr (Some img), snd (ask ae sp q w))"
  using assms
  by (auto simp: ask_def Let_def no_code_answer_def split: sum.splits option.splits prod.splits if_splits)

end
