(* ===== verification/UI.thy ===== *)
theory UI
  imports Agent
begin

text \<open>
  The two front ends and the HTTP wrapper. \<open>src/main.py\<close> serves \<open>ask\<close> as
  \<open>POST /chat\<close> (FastAPI answers 500 when the handler raises) and a fixed
  \<open>GET /health\<close>. \<open>src/app.py\<close> is a Streamlit page that checks the backend once
  per session (\<open>check_backend\<close>), then either posts each question to it or calls
  \<open>ask\<close> in-process (\<open>get_response\<close>), and appends the turns to an append-only
  history in \<open>st.session_state\<close>. \<open>src/streamlit_app.py\<close> is the in-process
  variant. JSON values are a datatype; the transport is assumed to carry a JSON
  value unchanged. A Streamlit rerun is a step of the session: \<open>app_init\<close> for
  the lines that run on every rerun, \<open>app_turn\<close> for a submitted question, taken
  after the stored history has rendered (\<open>render_history\<close>, which raises on a
  plot that does not decode).
\<close>

datatype json = JNull | JBool bool | JNum int | JStr string | JList "json list"
  | JObj "(string \<times> json) list"

record http_response =
  status_code :: nat
  body :: json

subsection \<open>The HTTP service, src/main.py\<close>

definition result_json :: "ask_result \<Rightarrow> json" where
  "result_json r =
     JObj [(''answer'', JStr (answer r)),
           (''plot'', (case plot r of None \<Rightarrow> JNull | Some p \<Rightarrow> JStr p))]"

definition internal_error :: http_response where
  "internal_error = \<lparr>status_code = 500, body = JStr ''Internal Server Error''\<rparr>"

definition chat :: "('df, 'fig) agent_env \<Rightarrow> string \<Rightarrow> string \<Rightarrow> ('df, 'fig) world
    \<Rightarrow> http_response \<times> ('df, 'fig) world" where
  "chat ae sp question w =
     (case ask ae sp question w of
        (Inl e, w') \<Rightarrow> (internal_error, w')
      | (Inr r, w') \<Rightarrow> (\<lparr>status_code = 200, body = result_json r\<rparr>, w'))"

definition health :: http_response where
  "health = \<lparr>status_code = 200, body = JObj [(''status'', JStr ''ok'')]\<rparr>"

subsection \<open>The Streamlit page, src/app.py\<close>

record chat_msg =
  role :: string
  content :: json
  msg_plot :: "string option"

record ui_state =
  backend_up :: "bool option"
  messages :: "chat_msg list"

definition check_backend :: "pyexn + http_response \<Rightarrow> bool" where
  "check_backend r = (case r of Inl _ \<Rightarrow> False | Inr resp \<Rightarrow> status_code resp = 200)"

text \<open>The lines that run on every rerun: the backend is checked only once per session.\<close>

definition app_init :: "pyexn + http_response \<Rightarrow> ui_state \<Rightarrow> ui_state" where
  "app_init h s =
     (case backend_up s of None \<Rightarrow> s\<lparr>backend_up := Some (check_backend h)\<rparr> | Some _ \<Rightarrow> s)"

text \<open>
  \<open>get_response\<close>: the posted response, failing on a status of 400 or more
  (\<open>raise_for_status\<close>), or the in-process \<open>ask\<close>.
\<close>

definition get_response :: "bool \<Rightarrow> pyexn + http_response \<Rightarrow> pyexn + json \<Rightarrow> pyexn + json" where
  "get_response up posted local =
     (if up then
        (case posted of
           Inl e \<Rightarrow> Inl e
         | Inr resp \<Rightarrow>
             if 400 \<le> status_code resp then Inl (PyExn ''HTTPError'' ''server error'')
             else Inr (body resp))
      else local)"

definition local_ask :: "('df, 'fig) agent_env \<Rightarrow> string \<Rightarrow> string \<Rightarrow> ('df, 'fig) world
    \<Rightarrow> pyexn + json" where
  "local_ask ae sp q w = map_sum id result_json (fst (ask ae sp q w))"

text \<open>\<open>result.get(key, default)\<close>: a dictionary lookup, \<open>AttributeError\<close> on a non-dictionary.\<close>

definition json_get :: "string \<Rightarrow> json \<Rightarrow> json \<Rightarrow> pyexn + json" where
  "json_get k dflt j =
     (case j of
        JObj kvs \<Rightarrow> (case map_of kvs k of Some v \<Rightarrow> Inr v | None \<Rightarrow> Inr dflt)
      | _ \<Rightarrow> Inl (PyExn ''AttributeError'' ''object has no attribute get''))"

fun json_truthy :: "json \<Rightarrow> bool" where
  "json_truthy JNull = False"
| "json_truthy (JBool b) = b"
| "json_truthy (JNum n) = (n \<noteq> 0)"
| "json_truthy (JStr s) = (s \<noteq> [])"
| "json_truthy (JList xs) = (xs \<noteq> [])"
| "json_truthy (JObj kvs) = (kvs \<noteq> [])"

text \<open>
  The assistant entry of a result (app.py 87-94): the answer with its default, and
  the plot when it is truthy, after \<open>base64.b64decode\<close> has accepted it for
  \<open>st.image\<close>.
\<close>

definition assistant_entry :: "string \<Rightarrow> json \<Rightarrow> pyexn + chat_msg" where
  "assistant_entry dflt result =
     (case json_get ''answer'' (JStr dflt) result of
        Inl e \<Rightarrow> Inl e
      | Inr ans \<Rightarrow>
          (case json_get ''plot'' JNull result of
             Inl e \<Rightarrow> Inl e
           | Inr p \<Rightarrow>
               if \<not> json_truthy p then Inr \<lparr>role = ''assistant'', content = ans, msg_plot = None\<rparr>
               else (case p of
                       JStr s \<Rightarrow>
                         (case b64decode s of
                            None \<Rightarrow> Inl (PyExn ''Error'' ''Incorrect padding'')
                          | Some _ \<Rightarrow> Inr \<lparr>role = ''assistant'', content = ans, msg_plot = Some s\<rparr>)
                     | _ \<Rightarrow> Inl (PyExn ''TypeError'' ''argument should be a bytes-like object or ASCII string''))))"

definition user_msg :: "string \<Rightarrow> chat_msg" where
  "user_msg q = \<lparr>role = ''user'', content = JStr q, msg_plot = None\<rparr>"

text \<open>
  A submitted question (app.py 76-102): the user turn is appended first; the
  assistant turn only when the response and its entry succeed. An
  \<open>Exception\<close> is shown by the handlers (98-102); any other exception (the
  \<open>SystemExit\<close> of a local \<open>ask\<close>) passes them and ends the script run.
  Either way the session state is the one with the user turn appended.
\<close>

definition app_turn :: "string \<Rightarrow> pyexn + json \<Rightarrow> ui_state \<Rightarrow> ui_state" where
  "app_turn q resp s =
     (let s1 = s\<lparr>messages := messages s @ [user_msg q]\<rparr>
      in case resp of
           Inl _ \<Rightarrow> s1
         | Inr result \<Rightarrow>
             (case assistant_entry ''No answer returned.'' result of
                Inl _ \<Rightarrow> s1
              | Inr m \<Rightarrow> s1\<lparr>messages := messages s1 @ [m]\<rparr>))"

definition app_start :: ui_state where
  "app_start = \<lparr>backend_up = None, messages = []\<rparr>"

text \<open>
  Rendering a stored message (app.py 70-73, streamlit_app.py 27-31): the text
  always renders; a truthy plot goes through \<open>base64.b64decode\<close>, whose error
  stops the script. The history is rendered in order on every rerun
  (app.py 68-73, streamlit_app.py 33-35).
\<close>

definition render_message :: "chat_msg \<Rightarrow> pyexn + unit" where
  "render_message m =
     (case msg_plot m of
        None \<Rightarrow> Inr ()
      | Some p \<Rightarrow>
          if p = [] then Inr ()
          else (case b64decode p of None \<Rightarrow> Inl (PyExn ''Error'' ''Incorrect padding'') | Some _ \<Rightarrow> Inr ()))"

fun render_history :: "chat_msg list \<Rightarrow> pyexn + unit" where
  "render_history [] = Inr ()"
| "render_history (m # ms) = (case render_message m of Inl e \<Rightarrow> Inl e | Inr _ \<Rightarrow> render_history ms)"

text \<open>
  One rerun of the page: the per-rerun lines alone, or, once the backend has been
  checked and the history has rendered, a submitted question; the backend's
  answers are not determined.
\<close>

inductive app_step :: "ui_state \<Rightarrow> ui_state \<Rightarrow> bool" where
  rerun: "app_step s (app_init h s)"
| submit: "backend_up s = Some up \<Longrightarrow> render_history (messages s) = Inr ()
           \<Longrightarrow> app_step s (app_turn q (get_response up posted local) s)"

inductive app_reach :: "ui_state \<Rightarrow> bool" where
  start: "app_reach app_start"
| step: "app_reach s \<Longrightarrow> app_step s s' \<Longrightarrow> app_reach s'"

inductive_cases app_stepE: "app_step s s'"

subsection \<open>The in-process page, src/streamlit_app.py\<close>

definition st_turn :: "string \<Rightarrow> pyexn + json \<Rightarrow> chat_msg list \<Rightarrow> chat_msg list" where
  "st_turn q resp ms =
     (let ms1 = ms @ [user_msg q]
      in case resp of
           Inl _ \<Rightarrow> ms1
         | Inr result \<Rightarrow>
             (case assistant_entry [] result of Inl _ \<Rightarrow> ms1 | Inr m \<Rightarrow> ms1 @ [m]))"

text \<open>
  A session of streamlit_app.py: the history starts empty (22-24), and a rerun
  with a question first renders the history (33-35) and then takes the turn,
  with whatever \<open>ask\<close> returns or raises.
\<close>

inductive st_reach :: "chat_msg list \<Rightarrow> bool" where
  start: "st_reach []"
| turn: "st_reach ms \<Longrightarrow> render_history ms = Inr () \<Longrightarrow> st_reach (st_turn q resp ms)"

subsection \<open>The shape of a history\<close>

definition plot_ok :: "chat_msg \<Rightarrow> bool" where
  "plot_ok m = (case msg_plot m of None \<Rightarrow> True | Some s \<Rightarrow> b64decode s \<noteq> None)"

text \<open>
  Every message is a user turn or an assistant turn, every assistant turn directly
  follows a user turn, only assistant turns carry a plot, and every stored plot
  decodes.
\<close>

fun hist_ok :: "chat_msg list \<Rightarrow> bool" where
  "hist_ok [] = True"
| "hist_ok [u] = (role u = ''user'' \<and> msg_plot u = None)"
| "hist_ok (u # a # ms) =
     (role u = ''user'' \<and> msg_plot u = None \<and>
      (if role a = ''assistant'' then plot_ok a \<and> hist_ok ms else hist_ok (a # ms)))"


subsection \<open>Histories\<close>

lemma hist_ok_append: "hist_ok xs \<Longrightarrow> hist_ok ys \<Longrightarrow> hist_ok (xs @ ys)"
proof (induction xs rule: hist_ok.induct)
  case (2 u)
  then show ?case by (cases ys rule: hist_ok.cases) auto
next
  case (3 u a ms)
  then show ?case by (auto split: if_splits)
qed simp

lemma hist_ok_user [simp]: "hist_ok [user_msg q]"
  by (simp add: user_msg_def)

lemma assistant_entry_ok:
  "assistant_entry d r = Inr m \<Longrightarrow> role m = ''assistant'' \<and> plot_ok m"
  by (auto simp: assistant_entry_def plot_ok_def split: sum.splits if_splits json.splits option.splits)

lemma hist_ok_turn: "assistant_entry d r = Inr m \<Longrightarrow> hist_ok [user_msg q, m]"
  by (drule assistant_entry_ok) (simp add: user_msg_def)

lemma app_turn_messages:
  "messages (app_turn q resp s) = messages s @ [user_msg q]
   \<or> (\<exists>r m. resp = Inr r \<and> assistant_entry ''No answer returned.'' r = Inr m
          \<and> messages (app_turn q resp s) = messages s @ [user_msg q, m])"
  by (auto simp: app_turn_def Let_def split: sum.splits)

lemma app_turn_backend [simp]: "backend_up (app_turn q resp s) = backend_up s"
  by (simp add: app_turn_def Let_def split: sum.splits)

lemma app_init_messages [simp]: "messages (app_init h s) = messages s"
  by (simp add: app_init_def split: option.splits)

lemma app_turn_hist: "hist_ok (messages s) \<Longrightarrow> hist_ok (messages (app_turn q resp s))"
proof -
  assume h: "hist_ok (messages s)"
  from app_turn_messages [of q resp s] show ?thesis
  proof
    assume "messages (app_turn q resp s) = messages s @ [user_msg q]"
    with hist_ok_append [OF h hist_ok_user [of q]] show ?thesis by simp
  next
    assume "\<exists>r m. resp = Inr r \<and> assistant_entry ''No answer returned.'' r = Inr m
          \<and> messages (app_turn q resp s) = messages s @ [user_msg q, m]"
    then obtain r m where e: "assistant_entry ''No answer returned.'' r = Inr m"
      and ms: "messages (app_turn q resp s) = messages s @ [user_msg q, m]"
      by blast
    from hist_ok_append [OF h hist_ok_turn [OF e, of q]] ms show ?thesis by simp
  qed
qed

lemma app_turn_prefix: "prefix (messages s) (messages (app_turn q resp s))"
  using app_turn_messages [of q resp s] by (auto intro: prefixI)

lemma app_step_hist: "app_step s s' \<Longrightarrow> hist_ok (messages s) \<Longrightarrow> hist_ok (messages s')"
  by (erule app_stepE) (simp_all add: app_turn_hist)

lemma app_step_prefix: "app_step s s' \<Longrightarrow> prefix (messages s) (messages s')"
  by (erule app_stepE) (simp_all add: app_turn_prefix)

lemma app_step_backend: "app_step s s' \<Longrightarrow> backend_up s = Some b \<Longrightarrow> backend_up s' = Some b"
  by (erule app_stepE) (auto simp: app_init_def)

text \<open>The answer's default never applies to a result of the service: it always has an answer.\<close>

lemma assistant_entry_result_json:
  "assistant_entry d (result_json r) = assistant_entry [] (result_json r)"
  by (simp add: assistant_entry_def json_get_def result_json_def split: option.splits)

lemma hist_ok_plots: "hist_ok ms \<Longrightarrow> m \<in> set ms \<Longrightarrow> plot_ok m"
  by (induction ms rule: hist_ok.induct) (auto simp: plot_ok_def split: if_splits)

lemma render_history_ok: "(\<And>m. m \<in> set ms \<Longrightarrow> plot_ok m) \<Longrightarrow> render_history ms = Inr ()"
proof (induction ms)
  case (Cons m ms)
  have "plot_ok m" using Cons.prems [of m] by simp
  moreover have "render_history ms = Inr ()" using Cons by simp
  ultimately show ?case by (auto simp: render_message_def plot_ok_def split: option.splits)
qed simp

text \<open>Rendering the history of a reachable session of app.py never raises.\<close>

lemma app_reach_hist: "app_reach s \<Longrightarrow> hist_ok (messages s)"
  by (induction rule: app_reach.induct) (simp_all add: app_start_def app_step_hist)

lemma app_reach_renders: "app_reach s \<Longrightarrow> render_history (messages s) = Inr ()"
  using app_reach_hist hist_ok_plots render_history_ok by blast

lemma st_turn_hist: "hist_ok ms \<Longrightarrow> hist_ok (st_turn q resp ms)"
  by (auto simp: st_turn_def Let_def intro: hist_ok_append [OF _ hist_ok_user] hist_ok_append [OF _ hist_ok_turn]
      split: sum.splits)

text \<open>The same for streamlit_app.py.\<close>

lemma st_reach_renders: "st_reach ms \<Longrightarrow> hist_ok ms \<and> render_history ms = Inr ()"
proof (induction rule: st_reach.induct)
  case (turn ms q resp)
  then have "hist_ok (st_turn q resp ms)" by (simp add: st_turn_hist)
  then show ?case using hist_ok_plots render_history_ok by blast
qed simp

subsection \<open>Properties of the front ends\<close>

text \<open>
  C27: in every reachable session state the history is well formed: user and
  assistant turns only, each assistant turn right after a user turn, and every
  stored plot decodes; so rendering the history on a rerun never raises.
\<close>

theorem app_reach_hist_ok:
  "app_reach s \<Longrightarrow> hist_ok (messages s) \<and> render_history (messages s) = Inr ()"
  using app_reach_hist app_reach_renders by blast

text \<open>
  C28: a rerun only appends to the history, and once the backend has been
  checked the session's mode (API or local) never changes.
\<close>

theorem app_step_monotone:
  assumes "app_step s s'"
  shows "prefix (messages s) (messages s') \<and> (\<forall>b. backend_up s = Some b \<longrightarrow> backend_up s' = Some b)"
  using app_step_prefix [OF assms] app_step_backend [OF assms] by blast

text \<open>
  C29: API mode and local mode record the same turns: posting to the service,
  which answers with \<open>ask\<close>'s result or 500 when \<open>ask\<close> raises, leaves the
  same history as calling \<open>ask\<close> in-process.
\<close>

theorem api_local_agree:
  "app_turn q (get_response True (Inr (fst (chat ae sp q w))) l) s
     = app_turn q (get_response False p (local_ask ae sp q w)) s"
proof (cases "ask ae sp q w")
  case (Pair res w')
  then show ?thesis
    by (cases res) (simp_all add: get_response_def chat_def local_ask_def internal_error_def app_turn_def)
qed

text \<open>
  C30: the in-process page \<open>streamlit_app.py\<close> records the same history as the
  local mode of \<open>app.py\<close>: their different answer defaults never apply to a
  result of \<open>ask\<close>.
\<close>

theorem streamlit_app_agree:
  "messages (app_turn q (local_ask ae sp q w) s) = st_turn q (local_ask ae sp q w) (messages s)"
  by (cases "fst (ask ae sp q w)")
     (simp_all add: local_ask_def app_turn_def st_turn_def assistant_entry_result_json [of "''No answer returned.''"] Let_def
      split: sum.split)

end
