(* ===== verification/Config.thy ===== *)
theory Config
  imports UI
begin

text \<open>
  Configuration and the request schema. Every entry point calls
  \<open>load_dotenv()\<close>. python-dotenv's default is \<open>override=False\<close>: a key from
  \<open>.env\<close> fills only a variable the process does not already have, and a
  variable set to the empty string counts as present. \<open>src/app.py\<close> then copies
  the token from \<open>st.secrets\<close> into \<open>os.environ\<close>, ignoring every exception;
  importing \<open>agent\<close> runs \<open>load_dotenv()\<close> again. The contents of \<open>.env\<close> and
  of the secrets store are parameters (maps from keys to values). Reading
  \<open>st.secrets\<close> when no secrets file exists raises, which is the \<open>Inl\<close> case.
  \<open>src/main.py\<close>'s \<open>ChatRequest\<close> is the pydantic schema of \<open>POST /chat\<close>;
  FastAPI answers 422 to a body that does not match it.
\<close>

type_synonym environ = "string \<Rightarrow> string option"

definition load_dotenv :: "environ \<Rightarrow> environ \<Rightarrow> environ" where
  "load_dotenv dotenv env k = (case env k of Some v \<Rightarrow> Some v | None \<Rightarrow> dotenv k)"

definition copy_secrets :: "pyexn + environ \<Rightarrow> environ \<Rightarrow> environ" where
  "copy_secrets secrets env =
     (case secrets of
        Inl _ \<Rightarrow> env
      | Inr sec \<Rightarrow> (case sec token_var of None \<Rightarrow> env | Some v \<Rightarrow> env(token_var \<mapsto> v)))"

text \<open>The environment \<open>ask\<close> sees in app.py's local mode: lines 7, 10-14, then agent.py line 14.\<close>

definition app_environ :: "environ \<Rightarrow> pyexn + environ \<Rightarrow> environ \<Rightarrow> environ" where
  "app_environ dotenv secrets env0 = load_dotenv dotenv (copy_secrets secrets (load_dotenv dotenv env0))"

text \<open>The environment of the HTTP service: main.py line 6, then agent.py line 14.\<close>

definition server_environ :: "environ \<Rightarrow> environ \<Rightarrow> environ" where
  "server_environ dotenv env0 = load_dotenv dotenv (load_dotenv dotenv env0)"

definition api_url :: "environ \<Rightarrow> string" where
  "api_url env = (case env ''API_URL'' of Some u \<Rightarrow> u | None \<Rightarrow> ''http://localhost:8000'')"

text \<open>\<open>ChatRequest\<close>: an object whose \<open>question\<close> is a string; anything else is rejected with 422.\<close>

definition chat_request_question :: "json \<Rightarrow> string option" where
  "chat_request_question req =
     (case req of
        JObj kvs \<Rightarrow> (case map_of kvs ''question'' of Some (JStr q) \<Rightarrow> Some q | _ \<Rightarrow> None)
      | _ \<Rightarrow> None)"

definition unprocessable :: http_response where
  "unprocessable = \<lparr>status_code = 422, body = JStr ''Unprocessable Entity''\<rparr>"

definition chat_endpoint :: "('df, 'fig) agent_env \<Rightarrow> string \<Rightarrow> json \<Rightarrow> ('df, 'fig) world
    \<Rightarrow> http_response \<times> ('df, 'fig) world" where
  "chat_endpoint ae sp req w =
     (case chat_request_question req of
        None \<Rightarrow> (unprocessable, w)
      | Some q \<Rightarrow> chat ae sp q w)"

text \<open>The body app.py posts: \<open>json={"question": question}\<close>.\<close>

definition question_body :: "string \<Rightarrow> json" where
  "question_body q = JObj [(''question'', JStr q)]"

subsection \<open>Lemmas\<close>

lemma load_dotenv_idem [simp]: "load_dotenv d (load_dotenv d e) = load_dotenv d e"
  by (rule ext) (simp add: load_dotenv_def split: option.split)

lemma chat_endpoint_question_body: "chat_endpoint ae sp (question_body q) w = chat ae sp q w"
  by (simp add: chat_endpoint_def chat_request_question_def question_body_def)

text \<open>
  A token variable set to the empty string in the process hides the token in
  \<open>.env\<close>: the service then fails every model call with \<open>RuntimeError\<close>.
\<close>

lemma empty_token_shadows_dotenv:
  "env0 token_var = Some [] \<Longrightarrow>
   call_llm (server_environ dotenv env0) client sys user = Inl (PyExn ''RuntimeError'' token_missing_msg)"
  by (simp add: server_environ_def load_dotenv_def call_llm_def)

subsection \<open>Properties\<close>

text \<open>
  C35: the token the local page's \<open>ask\<close> uses comes from the Streamlit secrets
  when they hold one; otherwise, as in the HTTP service, from the process
  environment, and from \<open>.env\<close> only when the process has no such variable
  (an empty variable included). The second \<open>load_dotenv\<close> of the agent changes
  nothing.
\<close>

theorem app_token_precedence:
  "app_environ dotenv secrets env0 token_var =
     (case secrets of
        Inr sec \<Rightarrow> (case sec token_var of Some v \<Rightarrow> Some v | None \<Rightarrow> server_environ dotenv env0 token_var)
      | Inl _ \<Rightarrow> server_environ dotenv env0 token_var)
   \<and> server_environ dotenv env0 token_var
       = (case env0 token_var of Some v \<Rightarrow> Some v | None \<Rightarrow> dotenv token_var)"
  by (simp add: app_environ_def server_environ_def copy_secrets_def load_dotenv_def
      split: sum.split option.split)

end
