(* ===== verification/Threads.thy ===== *)
theory Threads
  imports Runtime
begin

text \<open>
  Concurrent requests. \<open>src/main.py\<close> declares \<open>chat\<close> with a plain \<open>def\<close>, so
  FastAPI runs each request in its worker threadpool and several calls of
  \<open>ask\<close> may interleave. They share the interpreter's one \<open>sys.stdout\<close> and
  pyplot's one figure manager. Each thread runs the part of \<open>ask\<close> that touches
  them as the steps of its source lines: \<open>plt.close('all')\<close> (104); in
  \<open>run_code\<close>, save \<open>sys.stdout\<close> (81), install a fresh \<open>StringIO\<close> (82), run
  the snippet one statement at a time (85: a \<open>print\<close> writes to whatever
  \<open>sys.stdout\<close> is at that moment, a figure call acts on the shared figures),
  restore the saved stream (87, the \<open>finally\<close>) and return the stripped buffer
  (88) or the exception, which ends the request (116-119); then \<open>grab_plot\<close>
  (121): check for open figures (93), save the current one (96; \<open>plt.gcf()\<close>
  creates a blank figure when none is open), close them all (99). Between any
  two steps the GIL may switch threads. The model call and the extraction
  (107-113) touch neither and are left out; the dataset is not modelled here.
\<close>

datatype stream = StdConsole | StringIO nat

datatype tpc = Reset | Save | Redirect | Exec | Restore | Return | Check | SaveFig | CloseAll | Finished

text \<open>An open figure: its number and its content, \<open>None\<close> for a blank figure.\<close>

type_synonym 'fig figures = "(nat \<times> 'fig option) list"

record ('df, 'fig) thread =
  pc :: tpc
  prog :: "('df, 'fig) stmt list"
  saved :: stream
  buffer :: string
  raised :: "pyexn option"
  outcome :: "(pyexn + string) option"
  chart :: "'fig option option"

record ('df, 'fig) shared =
  sys_stdout :: stream
  term_out :: string
  open_figs :: "'fig figures"
  ths :: "('df, 'fig) thread list"

definition fresh_thread :: "('df, 'fig) stmt list \<Rightarrow> ('df, 'fig) thread" where
  "fresh_thread ss =
     \<lparr>pc = Reset, prog = ss, saved = StdConsole, buffer = [], raised = None, outcome = None,
      chart = None\<rparr>"

definition cinit :: "('df, 'fig) stmt list list \<Rightarrow> ('df, 'fig) shared" where
  "cinit ps = \<lparr>sys_stdout = StdConsole, term_out = [], open_figs = [], ths = map fresh_thread ps\<rparr>"

definition set_thread :: "nat \<Rightarrow> (('df, 'fig) thread \<Rightarrow> ('df, 'fig) thread)
    \<Rightarrow> ('df, 'fig) shared \<Rightarrow> ('df, 'fig) shared" where
  "set_thread i f s = s\<lparr>ths := (ths s)[i := f (ths s ! i)]\<rparr>"

text \<open>A write to a stream: the terminal, or the buffer of the thread that created the \<open>StringIO\<close>.\<close>

fun write_to :: "stream \<Rightarrow> string \<Rightarrow> ('df, 'fig) shared \<Rightarrow> ('df, 'fig) shared" where
  "write_to StdConsole x s = s\<lparr>term_out := term_out s @ x\<rparr>"
| "write_to (StringIO j) x s = set_thread j (\<lambda>t. t\<lparr>buffer := buffer t @ x\<rparr>) s"

text \<open>
  pyplot on the shared figures, as \<open>plt_figure\<close> and \<open>plt_draw\<close> of Runtime do
  on a world; \<open>gcf\<close> is \<open>plt.gcf()\<close>, which opens a blank figure when none is
  open.
\<close>

definition open_fig :: "'fig \<Rightarrow> 'fig figures \<Rightarrow> 'fig figures" where
  "open_fig f fs = fs @ [(Suc (fold max (map fst fs) 0), Some f)]"

definition draw_fig :: "('fig option \<Rightarrow> 'fig) \<Rightarrow> 'fig figures \<Rightarrow> 'fig figures" where
  "draw_fig g fs =
     (case fs of
        [] \<Rightarrow> [(1, Some (g None))]
      | _ \<Rightarrow> butlast fs @ [(fst (last fs), Some (g (snd (last fs))))])"

definition gcf :: "'fig figures \<Rightarrow> 'fig figures \<times> 'fig option" where
  "gcf fs = (case fs of [] \<Rightarrow> ([(1, None)], None) | _ \<Rightarrow> (fs, snd (last fs)))"

text \<open>One step of thread \<open>i\<close>; \<open>None\<close> when it has finished or does not exist.\<close>

definition tstep :: "nat \<Rightarrow> ('df, 'fig) shared \<Rightarrow> ('df, 'fig) shared option" where
  "tstep i s =
     (if length (ths s) \<le> i then None
      else let t = ths s ! i in
        (case pc t of
           Reset \<Rightarrow> Some ((set_thread i (\<lambda>t. t\<lparr>pc := Save\<rparr>) s)\<lparr>open_figs := []\<rparr>)
         | Save \<Rightarrow> Some (set_thread i (\<lambda>t. t\<lparr>saved := sys_stdout s, pc := Redirect\<rparr>) s)
         | Redirect \<Rightarrow>
             Some ((set_thread i (\<lambda>t. t\<lparr>buffer := [], pc := Exec\<rparr>) s)\<lparr>sys_stdout := StringIO i\<rparr>)
         | Exec \<Rightarrow>
             (case prog t of
                [] \<Rightarrow> Some (set_thread i (\<lambda>t. t\<lparr>pc := Restore\<rparr>) s)
              | st # rest \<Rightarrow>
                  (case st of
                     Print x \<Rightarrow>
                       Some (write_to (sys_stdout s) (x @ ''\<newline>'') (set_thread i (\<lambda>t. t\<lparr>prog := rest\<rparr>) s))
                   | Figure f \<Rightarrow>
                       Some ((set_thread i (\<lambda>t. t\<lparr>prog := rest\<rparr>) s)\<lparr>open_figs := open_fig f (open_figs s)\<rparr>)
                   | Plot g \<Rightarrow>
                       Some ((set_thread i (\<lambda>t. t\<lparr>prog := rest\<rparr>) s)\<lparr>open_figs := draw_fig g (open_figs s)\<rparr>)
                   | Raise e \<Rightarrow> Some (set_thread i (\<lambda>t. t\<lparr>prog := [], raised := Some e, pc := Restore\<rparr>) s)
                   | _ \<Rightarrow> Some (set_thread i (\<lambda>t. t\<lparr>prog := rest\<rparr>) s)))
         | Restore \<Rightarrow> Some ((set_thread i (\<lambda>t. t\<lparr>pc := Return\<rparr>) s)\<lparr>sys_stdout := saved t\<rparr>)
         | Return \<Rightarrow>
             Some (set_thread i (\<lambda>t. t\<lparr>outcome := Some (case raised t of
                                                           Some e \<Rightarrow> Inl e
                                                         | None \<Rightarrow> Inr (py_strip (buffer t))),
                                         pc := (case raised t of Some _ \<Rightarrow> Finished | None \<Rightarrow> Check)\<rparr>) s)
         | Check \<Rightarrow>
             Some (set_thread i (\<lambda>t. t\<lparr>pc := (if open_figs s = [] then Finished else SaveFig)\<rparr>) s)
         | SaveFig \<Rightarrow>
             Some ((set_thread i (\<lambda>t. t\<lparr>chart := Some (snd (gcf (open_figs s))), pc := CloseAll\<rparr>) s)
                     \<lparr>open_figs := fst (gcf (open_figs s))\<rparr>)
         | CloseAll \<Rightarrow> Some ((set_thread i (\<lambda>t. t\<lparr>pc := Finished\<rparr>) s)\<lparr>open_figs := []\<rparr>)
         | Finished \<Rightarrow> None))"

inductive cstep :: "('df, 'fig) shared \<Rightarrow> ('df, 'fig) shared \<Rightarrow> bool" where
  step: "tstep i s = Some s' \<Longrightarrow> cstep s s'"

inductive_cases cstepE: "cstep s s'"

text \<open>A schedule: the thread that runs next, a finished thread's turn being skipped.\<close>

fun run_sched :: "nat list \<Rightarrow> ('df, 'fig) shared \<Rightarrow> ('df, 'fig) shared" where
  "run_sched [] s = s"
| "run_sched (i # is) s = run_sched is (case tstep i s of None \<Rightarrow> s | Some s' \<Rightarrow> s')"

definition all_finished :: "('df, 'fig) shared \<Rightarrow> bool" where
  "all_finished s = list_all (\<lambda>t. pc t = Finished) (ths s)"

text \<open>Steps a thread has left at most: the measure of the termination proof.\<close>

definition steps_left :: "('df, 'fig) thread \<Rightarrow> nat" where
  "steps_left t =
     (case pc t of
        Reset \<Rightarrow> 9 + length (prog t) | Save \<Rightarrow> 8 + length (prog t) | Redirect \<Rightarrow> 7 + length (prog t)
      | Exec \<Rightarrow> 6 + length (prog t) | Restore \<Rightarrow> 5 | Return \<Rightarrow> 4 | Check \<Rightarrow> 3 | SaveFig \<Rightarrow> 2
      | CloseAll \<Rightarrow> 1 | Finished \<Rightarrow> 0)"

definition cmeasure :: "('df, 'fig) shared \<Rightarrow> nat" where
  "cmeasure s = sum_list (map steps_left (ths s))"

text \<open>
  What a snippet run alone leaves: the exception it raises, if any, and what it
  printed before. \<open>thread_result\<close> is the value \<open>run_code\<close> returns or raises.
\<close>

fun exec_out :: "('df, 'fig) stmt list \<Rightarrow> pyexn option \<times> string" where
  "exec_out [] = (None, [])"
| "exec_out (Print x # ss) = (fst (exec_out ss), x @ ''\<newline>'' @ snd (exec_out ss))"
| "exec_out (Raise e # ss) = (Some e, [])"
| "exec_out (_ # ss) = exec_out ss"

text \<open>The figures a snippet run alone leaves open, from the figures it starts with.\<close>

fun exec_figs :: "('df, 'fig) stmt list \<Rightarrow> 'fig figures \<Rightarrow> 'fig figures" where
  "exec_figs [] fs = fs"
| "exec_figs (Figure f # ss) fs = exec_figs ss (open_fig f fs)"
| "exec_figs (Plot g # ss) fs = exec_figs ss (draw_fig g fs)"
| "exec_figs (Raise e # ss) fs = fs"
| "exec_figs (_ # ss) fs = exec_figs ss fs"

text \<open>The steps the execution of a snippet takes: up to its end or its first exception.\<close>

fun exec_len :: "('df, 'fig) stmt list \<Rightarrow> nat" where
  "exec_len [] = 1"
| "exec_len (Raise e # ss) = 1"
| "exec_len (_ # ss) = Suc (exec_len ss)"

definition thread_result :: "('df, 'fig) stmt list \<Rightarrow> pyexn + string" where
  "thread_result ss = (case exec_out ss of (Some e, _) \<Rightarrow> Inl e | (None, out) \<Rightarrow> Inr (py_strip out))"

text \<open>
  The chart a request run alone captures: none after an exception or when its
  snippet left no figure open, otherwise the content of the last figure.
\<close>

definition thread_chart :: "('df, 'fig) stmt list \<Rightarrow> 'fig option option" where
  "thread_chart ss =
     (if fst (exec_out ss) \<noteq> None \<or> exec_figs ss [] = [] then None
      else Some (snd (last (exec_figs ss []))))"

text \<open>The figures a request run alone leaves open: only those of a snippet that raised.\<close>

definition thread_left_figs :: "('df, 'fig) stmt list \<Rightarrow> 'fig figures" where
  "thread_left_figs ss = (if fst (exec_out ss) = None then [] else exec_figs ss [])"

definition finished_thread :: "stream \<Rightarrow> ('df, 'fig) stmt list \<Rightarrow> ('df, 'fig) thread" where
  "finished_thread x ss =
     \<lparr>pc = Finished, prog = [], saved = x, buffer = snd (exec_out ss), raised = fst (exec_out ss),
      outcome = Some (thread_result ss), chart = thread_chart ss\<rparr>"

text \<open>The serial schedule: each request runs to its end before the next one starts.\<close>

definition serial :: "('df, 'fig) stmt list list \<Rightarrow> nat list" where
  "serial ps = concat (map (\<lambda>i. replicate (9 + length (ps ! i)) i) [0..<length ps])"

text \<open>The figures of a world seen as shared figures: every one has content.\<close>

abbreviation lift_figs :: "(nat \<times> 'fig) list \<Rightarrow> 'fig figures" where
  "lift_figs fs \<equiv> map (\<lambda>(n, f). (n, Some f)) fs"

subsection \<open>Steps, measure and the lemmas the properties share\<close>

lemma sum_list_update_less:
  "i < length xs \<Longrightarrow> y < xs ! i \<Longrightarrow> sum_list (xs[i := y]) < sum_list (xs :: nat list)"
  by (induction xs arbitrary: i) (auto split: nat.splits)

lemma set_thread_simps [simp]:
  "length (ths (set_thread i f s)) = length (ths s)"
  "sys_stdout (set_thread i f s) = sys_stdout s"
  "term_out (set_thread i f s) = term_out s"
  "open_figs (set_thread i f s) = open_figs s"
  by (simp_all add: set_thread_def)

lemma steps_left_buffer [simp]: "steps_left (t\<lparr>buffer := b\<rparr>) = steps_left t"
  by (simp add: steps_left_def split: tpc.splits)

lemma cmeasure_write_to [simp]: "cmeasure (write_to x b s) = cmeasure s"
proof (cases x)
  case (StringIO j)
  have "map steps_left ((ths s)[j := (ths s ! j)\<lparr>buffer := buffer (ths s ! j) @ b\<rparr>]) = map steps_left (ths s)"
    by (metis list_update_id map_update steps_left_buffer)
  then show ?thesis by (simp add: StringIO cmeasure_def set_thread_def map_update)
qed (simp add: cmeasure_def)

lemma cmeasure_stdout [simp]: "cmeasure (s\<lparr>sys_stdout := x\<rparr>) = cmeasure s"
  by (simp add: cmeasure_def)

lemma cmeasure_figs [simp]: "cmeasure (s\<lparr>open_figs := x\<rparr>) = cmeasure s"
  by (simp add: cmeasure_def)

lemma cmeasure_set_thread:
  "i < length (ths s) \<Longrightarrow> steps_left (f (ths s ! i)) < steps_left (ths s ! i)
   \<Longrightarrow> cmeasure (set_thread i f s) < cmeasure s"
  unfolding cmeasure_def set_thread_def
  by (simp add: map_update sum_list_update_less)

lemma tstep_Reset:
  "i < length (ths s) \<Longrightarrow> pc (ths s ! i) = Reset \<Longrightarrow>
   tstep i s = Some ((set_thread i (\<lambda>t. t\<lparr>pc := Save\<rparr>) s)\<lparr>open_figs := []\<rparr>)"
  by (simp add: tstep_def)

lemma tstep_Save:
  "i < length (ths s) \<Longrightarrow> pc (ths s ! i) = Save \<Longrightarrow>
   tstep i s = Some (set_thread i (\<lambda>t. t\<lparr>saved := sys_stdout s, pc := Redirect\<rparr>) s)"
  by (simp add: tstep_def)

lemma tstep_Redirect:
  "i < length (ths s) \<Longrightarrow> pc (ths s ! i) = Redirect \<Longrightarrow>
   tstep i s = Some ((set_thread i (\<lambda>t. t\<lparr>buffer := [], pc := Exec\<rparr>) s)\<lparr>sys_stdout := StringIO i\<rparr>)"
  by (simp add: tstep_def)

lemma tstep_Exec_Nil:
  "i < length (ths s) \<Longrightarrow> pc (ths s ! i) = Exec \<Longrightarrow> prog (ths s ! i) = [] \<Longrightarrow>
   tstep i s = Some (set_thread i (\<lambda>t. t\<lparr>pc := Restore\<rparr>) s)"
  by (simp add: tstep_def)

lemma tstep_Exec_Cons:
  "i < length (ths s) \<Longrightarrow> pc (ths s ! i) = Exec \<Longrightarrow> prog (ths s ! i) = st # rest \<Longrightarrow>
   tstep i s = Some (case st of
                       Print x \<Rightarrow> write_to (sys_stdout s) (x @ ''\<newline>'') (set_thread i (\<lambda>t. t\<lparr>prog := rest\<rparr>) s)
                     | Figure f \<Rightarrow> (set_thread i (\<lambda>t. t\<lparr>prog := rest\<rparr>) s)\<lparr>open_figs := open_fig f (open_figs s)\<rparr>
                     | Plot g \<Rightarrow> (set_thread i (\<lambda>t. t\<lparr>prog := rest\<rparr>) s)\<lparr>open_figs := draw_fig g (open_figs s)\<rparr>
                     | Raise e \<Rightarrow> set_thread i (\<lambda>t. t\<lparr>prog := [], raised := Some e, pc := Restore\<rparr>) s
                     | _ \<Rightarrow> set_thread i (\<lambda>t. t\<lparr>prog := rest\<rparr>) s)"
  by (simp add: tstep_def split: stmt.split)

lemma tstep_Restore:
  "i < length (ths s) \<Longrightarrow> pc (ths s ! i) = Restore \<Longrightarrow>
   tstep i s = Some ((set_thread i (\<lambda>t. t\<lparr>pc := Return\<rparr>) s)\<lparr>sys_stdout := saved (ths s ! i)\<rparr>)"
  by (simp add: tstep_def)

lemma tstep_Return:
  "i < length (ths s) \<Longrightarrow> pc (ths s ! i) = Return \<Longrightarrow>
   tstep i s = Some (set_thread i (\<lambda>t. t\<lparr>outcome := Some (case raised t of Some e \<Rightarrow> Inl e
                                                     | None \<Rightarrow> Inr (py_strip (buffer t))),
                                        pc := (case raised t of Some _ \<Rightarrow> Finished | None \<Rightarrow> Check)\<rparr>) s)"
  by (simp add: tstep_def)

lemma tstep_Check:
  "i < length (ths s) \<Longrightarrow> pc (ths s ! i) = Check \<Longrightarrow>
   tstep i s = Some (set_thread i (\<lambda>t. t\<lparr>pc := (if open_figs s = [] then Finished else SaveFig)\<rparr>) s)"
  by (simp add: tstep_def)

lemma tstep_SaveFig:
  "i < length (ths s) \<Longrightarrow> pc (ths s ! i) = SaveFig \<Longrightarrow>
   tstep i s = Some ((set_thread i (\<lambda>t. t\<lparr>chart := Some (snd (gcf (open_figs s))), pc := CloseAll\<rparr>) s)
                       \<lparr>open_figs := fst (gcf (open_figs s))\<rparr>)"
  by (simp add: tstep_def)

lemma tstep_CloseAll:
  "i < length (ths s) \<Longrightarrow> pc (ths s ! i) = CloseAll \<Longrightarrow>
   tstep i s = Some ((set_thread i (\<lambda>t. t\<lparr>pc := Finished\<rparr>) s)\<lparr>open_figs := []\<rparr>)"
  by (simp add: tstep_def)

lemma tstep_length: "tstep i s = Some s' \<Longrightarrow> i < length (ths s)"
  by (auto simp: tstep_def split: if_splits)

lemma tstep_decreases:
  assumes step: "tstep i s = Some s'"
  shows "cmeasure s' < cmeasure s"
proof -
  have i: "i < length (ths s)" using tstep_length [OF step] .
  note less = cmeasure_set_thread [OF i]
  show ?thesis
  proof (cases "pc (ths s ! i)")
    case Exec
    show ?thesis
    proof (cases "prog (ths s ! i)")
      case Nil
      with Exec step tstep_Exec_Nil [OF i] less [of "\<lambda>t. t\<lparr>pc := Restore\<rparr>"] show ?thesis
        by (simp add: steps_left_def)
    next
      case (Cons st rest)
      with Exec step tstep_Exec_Cons [OF i] less [of "\<lambda>t. t\<lparr>prog := rest\<rparr>"]
        less [of "\<lambda>t. t\<lparr>prog := [], raised := Some e, pc := Restore\<rparr>" for e]
      show ?thesis by (cases st) (auto simp: steps_left_def)
    qed
  next
    case Return
    with step tstep_Return [OF i] show ?thesis
      by (auto intro!: cmeasure_set_thread [OF i] simp: steps_left_def split: option.split)
  next
    case Check
    with step tstep_Check [OF i] show ?thesis
      by (auto intro!: cmeasure_set_thread [OF i] simp: steps_left_def)
  next
    case Finished
    from Finished step i show ?thesis by (simp add: tstep_def)
  qed (use step i in \<open>auto simp: tstep_Reset tstep_Save tstep_Redirect tstep_Restore tstep_SaveFig
         tstep_CloseAll steps_left_def intro!: cmeasure_set_thread [OF i]\<close>)
qed

lemma tstep_None_iff: "tstep i s = None \<longleftrightarrow> length (ths s) \<le> i \<or> pc (ths s ! i) = Finished"
proof (cases "i < length (ths s)")
  case True
  show ?thesis
  proof (cases "pc (ths s ! i)")
    case Exec
    then show ?thesis using True
      by (cases "prog (ths s ! i)") (simp_all add: tstep_Exec_Nil tstep_Exec_Cons)
  next
    case Finished
    with True show ?thesis by (simp add: tstep_def)
  qed (use True in \<open>simp_all add: tstep_Reset tstep_Save tstep_Redirect tstep_Restore tstep_Return
         tstep_Check tstep_SaveFig tstep_CloseAll\<close>)
qed (simp add: tstep_def)

lemma run_sched_reach: "cstep\<^sup>*\<^sup>* s (run_sched ws s)"
proof (induction ws arbitrary: s)
  case (Cons i ws)
  then show ?case
    by (cases "tstep i s") (auto intro: converse_rtranclp_into_rtranclp cstep.step)
qed simp

lemma run_sched_append: "run_sched (xs @ ys) s = run_sched ys (run_sched xs s)"
  by (induction xs arbitrary: s) simp_all

lemma tstep_finished: "pc (ths s ! i) = Finished \<Longrightarrow> tstep i s = None"
  by (simp add: tstep_None_iff)

lemma run_sched_finished: "pc (ths s ! i) = Finished \<Longrightarrow> run_sched (replicate n i) s = s"
  by (induction n) (simp_all add: tstep_finished)

lemma exec_len_le: "exec_len ss \<le> Suc (length ss)"
  by (induction ss rule: exec_len.induct) simp_all

lemma run_sched_replicate_add:
  "run_sched (replicate (a + b) i) s = run_sched (replicate b i) (run_sched (replicate a i) s)"
  by (simp add: replicate_add run_sched_append)

lemma exec_loop:
  assumes "i < length (ths s)" and "ths s ! i = t" and "pc t = Exec" and "raised t = None"
    and "sys_stdout s = StringIO i"
  shows "run_sched (replicate (exec_len (prog t)) i) s =
           s\<lparr>open_figs := exec_figs (prog t) (open_figs s),
             ths := (ths s)[i := t\<lparr>pc := Restore, prog := [], buffer := buffer t @ snd (exec_out (prog t)),
                                   raised := fst (exec_out (prog t))\<rparr>]\<rparr>"
  using assms
proof (induction "prog t" arbitrary: s t)
  case Nil
  then show ?case
    by (cases t) (simp add: tstep_def set_thread_def flip: Nil.hyps)
next
  case (Cons st rest)
  have pt: "prog t = st # rest" using Cons.hyps(2) by simp
  show ?case
  proof (cases st)
    case (Print x)
    let ?t = "t\<lparr>prog := rest, buffer := buffer t @ x @ ''\<newline>''\<rparr>"
    let ?s1 = "s\<lparr>ths := (ths s)[i := ?t]\<rparr>"
    have step: "tstep i s = Some ?s1"
      using Cons.prems Print by (simp add: pt tstep_def set_thread_def)
    show ?thesis
      using Cons.hyps(1) [of ?t ?s1] Cons.prems Print step by (simp add: pt)
  next
    case (Figure f)
    let ?t = "t\<lparr>prog := rest\<rparr>"
    let ?s1 = "s\<lparr>ths := (ths s)[i := ?t], open_figs := open_fig f (open_figs s)\<rparr>"
    have step: "tstep i s = Some ?s1"
      using Cons.prems Figure by (simp add: pt tstep_def set_thread_def)
    show ?thesis
      using Cons.hyps(1) [of ?t ?s1] Cons.prems Figure step by (simp add: pt)
  next
    case (Plot g)
    let ?t = "t\<lparr>prog := rest\<rparr>"
    let ?s1 = "s\<lparr>ths := (ths s)[i := ?t], open_figs := draw_fig g (open_figs s)\<rparr>"
    have step: "tstep i s = Some ?s1"
      using Cons.prems Plot by (simp add: pt tstep_def set_thread_def)
    show ?thesis
      using Cons.hyps(1) [of ?t ?s1] Cons.prems Plot step by (simp add: pt)
  next
    case (Raise e)
    have r: "t\<lparr>prog := [], raised := Some e, pc := Restore\<rparr>
            = t\<lparr>pc := Restore, prog := [], raised := Some e\<rparr>"
      by (cases t) simp
    show ?thesis using Cons.prems Raise
      by (simp add: pt tstep_def set_thread_def r)
  qed (use Cons.hyps(1) [of "t\<lparr>prog := rest\<rparr>" "s\<lparr>ths := (ths s)[i := t\<lparr>prog := rest\<rparr>]\<rparr>"] Cons.prems
       in \<open>simp_all add: pt tstep_def set_thread_def\<close>)
qed

lemma exec_loop_other:
  assumes "i < length (ths s)" and "ths s ! i = t" and "pc t = Exec" and "raised t = None"
    and "sys_stdout s = StringIO j" and "j < length (ths s)" and "j \<noteq> i"
  shows "run_sched (replicate (exec_len (prog t)) i) s =
           s\<lparr>open_figs := exec_figs (prog t) (open_figs s),
             ths := ((ths s)[j := (ths s ! j)\<lparr>buffer := buffer (ths s ! j) @ snd (exec_out (prog t))\<rparr>])
                      [i := t\<lparr>pc := Restore, prog := [], raised := fst (exec_out (prog t))\<rparr>]\<rparr>"
  using assms
proof (induction "prog t" arbitrary: s t)
  case Nil
  then show ?case
    by (cases t) (simp add: tstep_def set_thread_def list_update_swap flip: Nil.hyps)
next
  case (Cons st rest)
  have pt: "prog t = st # rest" using Cons.hyps(2) by simp
  show ?case
  proof (cases st)
    case (Print x)
    let ?t = "t\<lparr>prog := rest\<rparr>"
    let ?s1 = "s\<lparr>ths := ((ths s)[i := ?t])[j := (ths s ! j)\<lparr>buffer := buffer (ths s ! j) @ x @ ''\<newline>''\<rparr>]\<rparr>"
    have step: "tstep i s = Some ?s1"
      using Cons.prems Print by (simp add: pt tstep_def set_thread_def)
    show ?thesis
      using Cons.hyps(1) [of ?t ?s1] Cons.prems Print step
      by (simp add: pt list_update_swap [of j i] nth_list_update)
  next
    case (Figure f)
    let ?t = "t\<lparr>prog := rest\<rparr>"
    let ?s1 = "s\<lparr>ths := (ths s)[i := ?t], open_figs := open_fig f (open_figs s)\<rparr>"
    have step: "tstep i s = Some ?s1"
      using Cons.prems Figure by (simp add: pt tstep_def set_thread_def)
    show ?thesis
      using Cons.hyps(1) [of ?t ?s1] Cons.prems Figure step by (simp add: pt list_update_swap [of j i])
  next
    case (Plot g)
    let ?t = "t\<lparr>prog := rest\<rparr>"
    let ?s1 = "s\<lparr>ths := (ths s)[i := ?t], open_figs := draw_fig g (open_figs s)\<rparr>"
    have step: "tstep i s = Some ?s1"
      using Cons.prems Plot by (simp add: pt tstep_def set_thread_def)
    show ?thesis
      using Cons.hyps(1) [of ?t ?s1] Cons.prems Plot step by (simp add: pt list_update_swap [of j i])
  next
    case (Raise e)
    have r: "t\<lparr>prog := [], raised := Some e, pc := Restore\<rparr>
            = t\<lparr>pc := Restore, prog := [], raised := Some e\<rparr>"
      by (cases t) simp
    show ?thesis using Cons.prems Raise
      by (simp add: pt tstep_def set_thread_def r list_update_swap [of j i])
  qed (use Cons.hyps(1) [of "t\<lparr>prog := rest\<rparr>" "s\<lparr>ths := (ths s)[i := t\<lparr>prog := rest\<rparr>]\<rparr>"] Cons.prems
       in \<open>simp_all add: pt tstep_def set_thread_def list_update_swap [of j i]\<close>)
qed

lemma gcf_Cons [simp]: "fs \<noteq> [] \<Longrightarrow> gcf fs = (fs, snd (last fs))"
  by (cases fs) (simp_all add: gcf_def)

lemma replicate_fuel5:
  assumes "5 \<le> n" obtains k where "replicate n i = i # i # i # i # i # replicate k i"
proof -
  have "n = Suc (Suc (Suc (Suc (Suc (n - 5)))))" using assms by arith
  then have "replicate n i = i # i # i # i # i # replicate (n - 5) i"
    by (metis replicate_Suc)
  then show ?thesis using that by blast
qed

lemma grab_plot_tail:
  assumes i: "i < length (ths s)" and t: "ths s ! i = t" and pct: "pc t = Restore" and n: "5 \<le> n"
  shows "run_sched (replicate n i) s =
           s\<lparr>sys_stdout := saved t, open_figs := (if raised t = None then [] else open_figs s),
             ths := (ths s)[i := t\<lparr>pc := Finished,
                        outcome := Some (case raised t of Some e \<Rightarrow> Inl e | None \<Rightarrow> Inr (py_strip (buffer t))),
                        chart := (if raised t = None \<and> open_figs s \<noteq> []
                                  then Some (snd (last (open_figs s))) else chart t)\<rparr>]\<rparr>"
proof -
  obtain k where rep: "replicate n i = i # i # i # i # i # replicate k i" using replicate_fuel5 [OF n] .
  obtain p pr sv b r oc c where tt: "t = \<lparr>pc = p, prog = pr, saved = sv, buffer = b, raised = r,
                                              outcome = oc, chart = c\<rparr>"
    by (cases t)
  have p: "p = Restore" using pct tt by simp
  show ?thesis
  proof (cases r)
    case (Some e)
    then show ?thesis using i t
      by (simp add: rep tt p tstep_Restore tstep_Return set_thread_def tstep_finished run_sched_finished)
  next
    case None
    show ?thesis
    proof (cases "open_figs s = []")
      case True
      then show ?thesis using i t None
        by (simp add: rep tt p tstep_Restore tstep_Return tstep_Check set_thread_def tstep_finished run_sched_finished)
    next
      case False
      then show ?thesis using i t None
        by (simp add: rep tt p tstep_Restore tstep_Return tstep_Check tstep_SaveFig tstep_CloseAll
            set_thread_def tstep_finished run_sched_finished)
    qed
  qed
qed

lemma start_thread:
  "i < length (ths s) \<Longrightarrow> ths s ! i = fresh_thread ss \<Longrightarrow>
   run_sched (replicate 3 i) s =
     s\<lparr>open_figs := [], ths := (ths s)[i := (fresh_thread ss)\<lparr>saved := sys_stdout s, pc := Exec, buffer := []\<rparr>],
       sys_stdout := StringIO i\<rparr>"
  by (simp add: numeral_3_eq_3 tstep_def set_thread_def fresh_thread_def)

lemma run_thread:
  assumes i: "i < length (ths s)" and t: "ths s ! i = fresh_thread ss" and n: "length ss + 9 \<le> n"
  shows "run_sched (replicate n i) s =
           s\<lparr>open_figs := thread_left_figs ss, ths := (ths s)[i := finished_thread (sys_stdout s) ss]\<rparr>"
proof -
  define m where "m = n - 3 - exec_len ss"
  have m: "5 \<le> m" and nm: "n = 3 + exec_len ss + m"
    using n exec_len_le [of ss] by (simp_all add: m_def)
  let ?t = "(fresh_thread ss)\<lparr>saved := sys_stdout s, pc := Exec, buffer := []\<rparr>"
  let ?s3 = "s\<lparr>open_figs := [], ths := (ths s)[i := ?t], sys_stdout := StringIO i\<rparr>"
  have pre: "run_sched (replicate 3 i) s = ?s3"
    using start_thread [OF i t] by simp
  let ?t4 = "?t\<lparr>pc := Restore, prog := [], buffer := snd (exec_out ss), raised := fst (exec_out ss)\<rparr>"
  let ?s4 = "?s3\<lparr>open_figs := exec_figs ss [], ths := (ths s)[i := ?t4]\<rparr>"
  have loop: "run_sched (replicate (exec_len ss) i) ?s3 = ?s4"
    using exec_loop [of i ?s3 ?t] i by (simp add: fresh_thread_def)
  have tail: "run_sched (replicate m i) ?s4 =
                s\<lparr>open_figs := thread_left_figs ss, ths := (ths s)[i := finished_thread (sys_stdout s) ss]\<rparr>"
    using grab_plot_tail [of i ?s4 ?t4 m] i m
    by (simp add: fresh_thread_def finished_thread_def thread_result_def thread_chart_def
        thread_left_figs_def split: option.split prod.split)
  show ?thesis
    using pre loop tail by (simp only: nm run_sched_replicate_add)
qed

lemma serial_prefix:
  "k \<le> length ps \<Longrightarrow>
   \<exists>fs. run_sched (concat (map (\<lambda>i. replicate (9 + length (ps ! i)) i) [0..<k])) (cinit ps)
     = \<lparr>sys_stdout = StdConsole, term_out = [], open_figs = fs,
        ths = map (finished_thread StdConsole) (take k ps) @ map fresh_thread (drop k ps)\<rparr>"
proof (induction k)
  case 0
  then show ?case by (simp add: cinit_def)
next
  case (Suc k)
  then obtain fs where
    IH: "run_sched (concat (map (\<lambda>i. replicate (9 + length (ps ! i)) i) [0..<k])) (cinit ps)
          = \<lparr>sys_stdout = StdConsole, term_out = [], open_figs = fs,
             ths = map (finished_thread StdConsole) (take k ps) @ map fresh_thread (drop k ps)\<rparr>"
    by auto
  let ?s = "\<lparr>sys_stdout = StdConsole, term_out = [], open_figs = fs,
             ths = map (finished_thread StdConsole) (take k ps) @ map fresh_thread (drop k ps)\<rparr>
            :: ('a, 'b) shared"
  have k: "k < length ps" using Suc.prems by simp
  have "ths ?s ! k = fresh_thread (ps ! k)" using k by (simp add: nth_append min_def)
  from run_thread [OF _ this, of "9 + length (ps ! k)"] k
  have "run_sched (replicate (9 + length (ps ! k)) k) ?s
          = ?s\<lparr>open_figs := thread_left_figs (ps ! k),
               ths := (ths ?s)[k := finished_thread StdConsole (ps ! k)]\<rparr>"
    by simp
  also have "\<dots> = \<lparr>sys_stdout = StdConsole, term_out = [], open_figs = thread_left_figs (ps ! k),
        ths = map (finished_thread StdConsole) (take (Suc k) ps) @ map fresh_thread (drop (Suc k) ps)\<rparr>"
    using k by (simp add: list_update_append take_Suc_conv_app_nth Cons_nth_drop_Suc [symmetric] min_def)
  finally show ?case using IH by (simp add: run_sched_append)
qed

lemma exec_stmts_out:
  "stdout w = Capture \<Longrightarrow>
   (case exec_stmts ss w of
      Inl (e, _) \<Rightarrow> fst (exec_out ss) = Some e
    | Inr w' \<Rightarrow> fst (exec_out ss) = None \<and> captured w' = captured w @ snd (exec_out ss))"
  by (induction ss w rule: exec_stmts.induct)
     (auto simp: plt_figure_def plt_draw_def py_print_def split: sum.splits prod.splits list.splits)

lemma run_code_result: "fst (run_code (stmt_exec parse) c w) = thread_result (parse c)"
  using exec_stmts_out [of "w\<lparr>stdout := Capture, captured := []\<rparr>" "parse c"]
  by (auto simp: run_code_def stmt_exec_def thread_result_def split: sum.splits prod.splits option.splits)

lemma map_fst_lift_figs: "map fst (lift_figs fs) = map fst fs"
  by (induction fs) auto

lemma lift_plt_figure: "lift_figs (figs (plt_figure f w)) = open_fig f (lift_figs (figs w))"
  by (simp only: plt_figure_def open_fig_def map_fst_lift_figs) simp

lemma lift_plt_draw: "lift_figs (figs (plt_draw g w)) = draw_fig g (lift_figs (figs w))"
proof (cases "figs w = []")
  case False
  let ?fs = "figs w"
  have d: "plt_draw g w = w\<lparr>figs := butlast ?fs @ [(fst (last ?fs), g (Some (snd (last ?fs))))]\<rparr>"
    using False by (cases ?fs) (simp_all add: plt_draw_def)
  have "lift_figs ?fs \<noteq> []" using False by simp
  then have f: "draw_fig g (lift_figs ?fs)
      = butlast (lift_figs ?fs) @ [(fst (last (lift_figs ?fs)), Some (g (snd (last (lift_figs ?fs)))))]"
    by (cases "lift_figs ?fs") (simp_all add: draw_fig_def)
  have l: "last (lift_figs ?fs) = (fst (last ?fs), Some (snd (last ?fs)))"
    using False by (simp add: last_map case_prod_beta)
  show ?thesis by (simp add: d f l map_butlast)
qed (simp add: plt_draw_def draw_fig_def)

lemma figs_py_print [simp]: "figs (py_print s w) = figs w"
  by (simp add: py_print_def split: sink.split)

lemma exec_figs_lift:
  "exec_figs ss (lift_figs (figs w))
     = lift_figs (figs (case exec_stmts ss w of Inl (_, w') \<Rightarrow> w' | Inr w' \<Rightarrow> w'))"
  by (induction ss w rule: exec_stmts.induct) (simp_all add: lift_plt_figure lift_plt_draw)

lemma run_code_chart:
  "thread_chart (parse c) =
     (case run_code (stmt_exec parse) c (plt_close_all w) of
        (Inl _, _) \<Rightarrow> None
      | (Inr _, w1) \<Rightarrow> if figs w1 = [] then None else Some (Some (snd (last (figs w1)))))"
proof -
  let ?w0 = "(plt_close_all w)\<lparr>stdout := Capture, captured := []\<rparr>"
  have fg: "exec_figs (parse c) []
      = lift_figs (figs (case exec_stmts (parse c) ?w0 of Inl (_, w') \<Rightarrow> w' | Inr w' \<Rightarrow> w'))"
    using exec_figs_lift [of "parse c" ?w0] by (simp add: plt_close_all_def)
  show ?thesis
    using fg exec_stmts_out [of ?w0 "parse c"]
    by (auto simp: run_code_def stmt_exec_def thread_chart_def last_map case_prod_beta
        split: sum.splits prod.splits)
qed

subsection \<open>The model is well formed\<close>

text \<open>
  Every step lowers the number of steps the threads have left (snippets are
  finite lists of statements), and a state has no step exactly when every
  thread has finished: every interleaving is finite and ends with every
  request answered. This holds because the modelled snippets have no loops.
\<close>

lemma cstep_wf: "wfp (\<lambda>s' s. cstep s s')"
  by (rule wfp_if_convertible_to_nat [of _ cmeasure]) (auto elim: cstepE dest: tstep_decreases)

lemma cstep_stuck_iff_finished: "all_finished s \<longleftrightarrow> (\<forall>s'. \<not> cstep s s')"
proof
  assume "all_finished s"
  then have "tstep i s = None" for i
    by (cases "i < length (ths s)") (auto simp: all_finished_def list_all_length tstep_None_iff)
  then show "\<forall>s'. \<not> cstep s s'" by (auto elim: cstepE)
next
  assume none: "\<forall>s'. \<not> cstep s s'"
  have "tstep i s = None" for i
    using none cstep.step [of i s] by (cases "tstep i s") auto
  then show "all_finished s"
    unfolding all_finished_def list_all_length tstep_None_iff by (meson not_le)
qed

subsection \<open>Properties of concurrent requests\<close>

text \<open>
  C33: \<open>ask\<close> is not safe for concurrent requests. For any two snippets that
  raise nothing, there is an interleaving in which both requests start, the
  second runs its snippet, the first runs its snippet and finishes, and the
  second finishes last. The first user then receives an empty answer and a chart
  of the figures both snippets drew (the second user's when the first snippet
  draws nothing); the second user receives its own output followed by the first
  user's, and no chart; and \<open>sys.stdout\<close> is left pointing at the first
  request's dead \<open>StringIO\<close>, so later output of the server is lost.
\<close>

theorem race_exchanges_results:
  assumes p: "fst (exec_out p) = None" and q: "fst (exec_out q) = None"
  shows "\<exists>s. cstep\<^sup>*\<^sup>* (cinit [p, q]) s \<and> all_finished s
     \<and> outcome (ths s ! 0) = Some (Inr [])
     \<and> outcome (ths s ! 1) = Some (Inr (py_strip (snd (exec_out q) @ snd (exec_out p))))
     \<and> chart (ths s ! 0) = (if exec_figs p (exec_figs q []) = [] then None
                             else Some (snd (last (exec_figs p (exec_figs q [])))))
     \<and> chart (ths s ! 1) = None
     \<and> term_out s = [] \<and> sys_stdout s = StringIO 0"
proof -
  let ?init = "cinit [p, q]"
  let ?F = "exec_figs p (exec_figs q [])"
  let ?t0 = "(fresh_thread p)\<lparr>saved := StdConsole, pc := Exec, buffer := []\<rparr>"
  let ?t1 = "(fresh_thread q)\<lparr>saved := StringIO 0, pc := Exec, buffer := []\<rparr>"
  let ?t1a = "?t1\<lparr>pc := Restore, prog := [], buffer := snd (exec_out q), raised := None\<rparr>"
  let ?t0a = "?t0\<lparr>pc := Restore, prog := [], raised := None\<rparr>"
  let ?t1b = "?t1a\<lparr>buffer := snd (exec_out q) @ snd (exec_out p)\<rparr>"
  let ?t0b = "?t0a\<lparr>pc := Finished, outcome := Some (Inr (py_strip [])),
                     chart := (if ?F \<noteq> [] then Some (snd (last ?F)) else None)\<rparr>"
  let ?t1c = "?t1b\<lparr>pc := Finished, outcome := Some (Inr (py_strip (snd (exec_out q) @ snd (exec_out p)))),
                     chart := None\<rparr>"
  let ?s1 = "\<lparr>sys_stdout = StringIO 0, term_out = [], open_figs = [], ths = [?t0, fresh_thread q]\<rparr>"
  let ?s2 = "\<lparr>sys_stdout = StringIO 1, term_out = [], open_figs = [], ths = [?t0, ?t1]\<rparr>"
  let ?s3 = "\<lparr>sys_stdout = StringIO 1, term_out = [], open_figs = exec_figs q [], ths = [?t0, ?t1a]\<rparr>"
  let ?s4 = "\<lparr>sys_stdout = StringIO 1, term_out = [], open_figs = ?F, ths = [?t0a, ?t1b]\<rparr>"
  let ?s5 = "\<lparr>sys_stdout = StdConsole, term_out = [], open_figs = [], ths = [?t0b, ?t1b]\<rparr>"
  let ?s6 = "\<lparr>sys_stdout = StringIO 0, term_out = [], open_figs = [], ths = [?t0b, ?t1c]\<rparr>"
  define m where "m = length p + 6 - exec_len p"
  have m: "5 \<le> m" using exec_len_le [of p] by (simp add: m_def)
  have e1: "run_sched (replicate 3 0) ?init = ?s1"
    using start_thread [of 0 ?init p] by (simp add: cinit_def)
  have e2: "run_sched (replicate 3 1) ?s1 = ?s2"
    using start_thread [of 1 ?s1 q] by simp
  have e3: "run_sched (replicate (exec_len q) 1) ?s2 = ?s3"
    using exec_loop [of 1 ?s2 ?t1] q by (simp add: fresh_thread_def)
  have e4: "run_sched (replicate (exec_len p) 0) ?s3 = ?s4"
    using exec_loop_other [of 0 ?s3 ?t0 1] p by (simp add: fresh_thread_def)
  have e5: "run_sched (replicate m 0) ?s4 = ?s5"
    using grab_plot_tail [of 0 ?s4 ?t0a m] m by (simp add: fresh_thread_def)
  have e6: "run_sched (replicate 5 1) ?s5 = ?s6"
    using grab_plot_tail [of 1 ?s5 ?t1b 5] by (simp add: fresh_thread_def)
  let ?sched = "replicate 3 0 @ replicate 3 1 @ replicate (exec_len q) 1 @ replicate (exec_len p) 0
                @ replicate m 0 @ replicate 5 (1::nat)"
  have run: "run_sched ?sched ?init = ?s6"
    by (simp only: run_sched_append e1 e2 e3 e4 e5 e6)
  have r: "cstep\<^sup>*\<^sup>* ?init ?s6" using run_sched_reach [of ?init ?sched] by (simp only: run)
  have f: "all_finished ?s6 \<and> outcome (ths ?s6 ! 0) = Some (Inr [])
     \<and> outcome (ths ?s6 ! 1) = Some (Inr (py_strip (snd (exec_out q) @ snd (exec_out p))))
     \<and> chart (ths ?s6 ! 0) = (if ?F = [] then None else Some (snd (last ?F)))
     \<and> chart (ths ?s6 ! 1) = None \<and> term_out ?s6 = [] \<and> sys_stdout ?s6 = StringIO 0"
    by (simp add: all_finished_def fresh_thread_def py_strip_def py_lstrip_def py_rstrip_def)
  from r f show ?thesis by blast
qed

text \<open>
  C34: run one after another, the fine-grained threads implement \<open>run_code\<close>
  and \<open>grab_plot\<close>: each request gets exactly the value \<open>run_code\<close> returns or
  raises and, when it returns, the figure \<open>grab_plot\<close> renders after it (the
  last one the snippet left open, after \<open>plt.close('all')\<close>), nothing reaches
  the terminal, and \<open>sys.stdout\<close> is the terminal again at the end.
\<close>

theorem serial_refines_run_code:
  "let s = run_sched (serial (map parse cs)) (cinit (map parse cs)) in
     sys_stdout s = StdConsole \<and> term_out s = [] \<and> ths s = map (finished_thread StdConsole \<circ> parse) cs
     \<and> map outcome (ths s) = map (\<lambda>c. Some (fst (run_code (stmt_exec parse) c w))) cs
     \<and> map chart (ths s) =
         map (\<lambda>c. case run_code (stmt_exec parse) c (plt_close_all w) of
                    (Inl _, _) \<Rightarrow> None
                  | (Inr _, w1) \<Rightarrow> if figs w1 = [] then None else Some (Some (snd (last (figs w1))))) cs"
proof -
  obtain fs where "run_sched (serial (map parse cs)) (cinit (map parse cs))
      = \<lparr>sys_stdout = StdConsole, term_out = [], open_figs = fs,
         ths = map (finished_thread StdConsole \<circ> parse) cs\<rparr>"
    using serial_prefix [of "length cs" "map parse cs"] by (auto simp: serial_def)
  then show ?thesis
    by (simp add: run_code_result finished_thread_def run_code_chart [symmetric])
qed

end
