(* ===== verification/Spec2Isabelle.thy ===== *)
theory Spec2Isabelle
  imports Config Threads
begin

text \<open>
  \<^bold>\<open>A verification model of the Titanic chat agent.\<close>

  \<^bold>\<open>The program.\<close> A user asks a question about the Titanic dataset; the agent
  (\<open>src/agent.py\<close>) sends a fixed system prompt and the question to a hosted
  language model, takes the first fenced code block of the reply, runs it with
  \<open>exec\<close> against the shared dataset while \<open>sys.stdout\<close> is redirected into a
  buffer, captures the current pyplot figure as base64 PNG, and returns
  \<open>{answer, plot}\<close>. \<open>src/main.py\<close> serves \<open>ask\<close> over HTTP
  (\<open>POST /chat\<close>, \<open>GET /health\<close>); \<open>src/app.py\<close> and
  \<open>src/streamlit_app.py\<close> are Streamlit chat pages that call it over HTTP or
  in-process and keep a per-session message history.

  \<^bold>\<open>The theories.\<close>
  \<^item> \<open>Prelude\<close>: bytes as \<open>8 word\<close>, Python exceptions (\<open>pyexn\<close>: type name and
    message) and \<open>is_exception\<close>, the test of \<open>except Exception\<close>,
    \<open>str.isspace\<close>/\<open>\<bs>s\<close> and \<open>str.strip\<close> on code points below 256.
  \<^item> \<open>Extract\<close>: \<open>extract_code\<close> (agent.py 66-76). \<open>re.findall\<close> for the two
    fence patterns is modelled as a backtracking matcher (\<open>lazy_close\<close> for
    \<open>(.*?)```\<close>, \<open>ws_lazy\<close> for the greedy \<open>\<bs>s*\<close>, \<open>match_at\<close>, the scan
    \<open>findall\<close> with its termination proof); \<open>first_block\<close> and
    \<open>extract_code_ref\<close> are the direct reading, proved equal to it.
  \<^item> \<open>Base64\<close>: the standard library's base64, modelled from RFC 4648 (it is not
    repository code): \<open>b64encode\<close> packs bytes with the shifts and masks of
    \<open>binascii\<close>, \<open>b64decode\<close> is the strict decoder of canonical text,
    \<open>ascii_decode\<close> is \<open>bytes.decode()\<close> on ASCII.
  \<^item> \<open>Runtime\<close>: the process state as a record \<open>world\<close> (environment
    variables, dataset, current \<open>sys.stdout\<close>, console and capture buffer,
    pyplot's open figures, the last one current); \<open>run_code\<close> (agent.py 79-88)
    and \<open>grab_plot\<close> (agent.py 91-100). The Python interpreter is a parameter
    (\<open>exec_sem\<close>); \<open>exec_stmts\<close> interprets snippets that print, open or draw
    figures, call the disabled \<open>plt.show\<close> (agent.py 17), mutate the dataset or
    raise. The PNG renderer \<open>savefig\<close> is a parameter that may raise.
  \<^item> \<open>Agent\<close>: the dataset loader with its CSV fallback (agent.py 19-23), the
    system prompt (26-40), \<open>call_llm\<close> (45-63) against a parameter service
    (\<open>hf_client\<close>), and \<open>ask\<close> (103-131), whose result is
    \<open>pyexn + ask_result\<close>: \<open>Inl\<close> exactly where an exception escapes.
  \<^item> \<open>UI\<close>: JSON values as a datatype; \<open>chat\<close> and \<open>health\<close> of main.py
    (25-33), 500 where \<open>ask\<close> raises; the Streamlit page app.py as a session
    state \<open>ui_state\<close> (the once-per-session backend flag and the message
    history) with \<open>app_init\<close> (31-33), \<open>get_response\<close> (40-50) and
    \<open>app_turn\<close> (76-102), a rerun as the step relation \<open>app_step\<close> and
    \<open>app_reach\<close> its reachable states; \<open>st_turn\<close> for streamlit_app.py
    (38-56) and \<open>st_reach\<close> for its sessions; \<open>render_message\<close> and
    \<open>render_history\<close> for the rendering of the stored history on each rerun,
    which may raise on a plot that does not decode; \<open>hist_ok\<close>, the shape of
    a well-formed history.
  \<^item> \<open>Threads\<close>: concurrent requests. main.py's \<open>chat\<close> is a plain \<open>def\<close>, so
    FastAPI runs requests in worker threads. The part of \<open>ask\<close> that touches
    process-wide state becomes per-statement steps of a thread (\<open>tstep\<close>:
    \<open>plt.close('all')\<close> (104); in \<open>run_code\<close> save \<open>sys.stdout\<close>, install a
    \<open>StringIO\<close>, execute statement by statement, restore, return; in
    \<open>grab_plot\<close> check for figures, save \<open>plt.gcf()\<close> (\<open>gcf\<close>), close all)
    over a state \<open>shared\<close> with the one \<open>sys.stdout\<close>, the terminal, the one
    list of open figures (\<open>open_fig\<close>, \<open>draw_fig\<close>) and the threads.
    \<open>cstep\<close> is any thread's step, and \<open>run_sched\<close> runs a given schedule.
    \<open>exec_out\<close>, \<open>exec_figs\<close>, \<open>thread_result\<close> and \<open>thread_chart\<close> are the
    results of a request run alone, tied to \<open>Runtime.run_code\<close> and the
    figure \<open>Runtime.grab_plot\<close> renders (\<open>run_code_result\<close>,
    \<open>run_code_chart\<close>, through \<open>exec_figs_lift\<close>).
  \<^item> \<open>Config\<close>: \<open>load_dotenv\<close> with python-dotenv's no-override rule, app.py's
    copy of the token from \<open>st.secrets\<close> (\<open>copy_secrets\<close>), the environments the
    page and the service end up with (\<open>app_environ\<close>, \<open>server_environ\<close>),
    \<open>API_URL\<close>, and the \<open>ChatRequest\<close> schema of \<open>POST /chat\<close>
    (\<open>chat_endpoint\<close>, 422 on a body that does not match it).
  \<^item> This theory: the properties that span the components, and the witnesses,
    run on a demonstration environment (\<open>demo_agent\<close>, \<open>demo_world\<close>).

  \<^bold>\<open>What is proved.\<close> The orchestrator's branches (C1-C5, C15-C22): every
  failure of the model call, every missing or empty code block and every
  snippet that raises an \<open>Exception\<close> becomes an answer; \<open>ask\<close> escapes
  with an exception when the reply content is \<open>None\<close> (C18), when
  \<open>savefig\<close> raises, and when the model call or the snippet raises an
  exception that is not an \<open>Exception\<close>, such as the \<open>SystemExit\<close> of
  \<open>exit()\<close> (\<open>is_exception\<close>; C2, C4); answers follow the output, chart,
  no-output priority; figure state left by an earlier request cannot change a
  later one; \<open>sys.stdout\<close> is restored on every path. The executor and chart
  capturer (C6, C11-C14): \<open>finally\<close> restores the sink, prints are captured and
  stripped, a second capture returns nothing, the payload decodes to the
  rendered bytes. The extractor (C7-C10, C26): the regex model equals the
  direct reading, a tagged block wins over later blocks, fence-free text has no
  code, extracted code is stripped and fence-free, and a block tagged
  \<open>```Python\<close> keeps its tag in the code. Across components (C23-C25, C31,
  C32): every plot \<open>ask\<close> returns decodes to bytes the renderer produced, a
  returned plot leaves no figure open, an execution error leaves the snippet's
  figures open, every answer reaches the page's history with its plot, and a
  snippet's change to the shared dataset survives even when the snippet then
  raises. The front ends (C27-C30): every reachable session has a well-formed
  history whose plots all decode, so rendering it never raises (rule induction
  over \<open>app_reach\<close>; \<open>st_reach_renders\<close> shows the same for
  streamlit_app.py), a rerun only appends and never changes the chosen mode, the
  API and the local mode record the same turns, and the two Streamlit pages
  agree. Concurrent requests (C33-C34): for any two snippets there is an
  interleaving in which the first user gets an empty answer and the chart of
  both users' figures, the second user gets both outputs and no chart, and
  \<open>sys.stdout\<close> is left on a dead \<open>StringIO\<close>; run one after another, the
  thread steps give exactly \<open>run_code\<close>'s results and the figure
  \<open>grab_plot\<close> renders. The lemmas \<open>cstep_wf\<close> and
  \<open>cstep_stuck_iff_finished\<close> show that the thread model itself is well
  formed. Configuration (C35): the token precedence is secrets, then the
  process environment, then \<open>.env\<close>. The Base64 theory's round trip and length
  law are facts about the library model that the capture and decode proofs use.

  \<^bold>\<open>Bounds.\<close> No fuel is needed: every loop of the source is structural or
  shortens its input (\<open>findall\<close> terminates by the length of the text, since
  each match consumes its closing fence). Strings are modelled as code points
  below 256, which covers the ASCII code the agent extracts and all its fixed
  messages. Schedules of threads are fuel: \<open>run_sched\<close> skips a finished
  thread's turn, so a schedule giving thread \<open>i\<close> at least
  \<open>9 + length\<close> of its snippet turns runs it to the end (\<open>run_thread\<close>:
  three steps before the snippet, at most one per statement and one for its
  end (\<open>exec_len\<close>), at most five after it), and the serial schedule
  \<open>serial\<close> gives each thread exactly that many turns.

  \<^bold>\<open>Not modelled.\<close> The language model's choice of reply, pandas and the
  Titanic data themselves, and the rendering of PNG bytes are parameters; the
  Python interpreter is a parameter with \<open>exec_stmts\<close> as one instance;
  Streamlit rendering, FastAPI routing and CORS, the parsing of the \<open>.env\<close> file
  and network transport are I/O; the HTTP transport is assumed to carry a JSON value unchanged, and the
  backend's answers inside a session are not determined by the model (any
  response may arrive). Concurrency is modelled for the shared
  \<open>sys.stdout\<close> and the shared figure manager; a snippet's change to the
  dataset is modelled only in the sequential \<open>Agent\<close>, where each \<open>ask\<close> is
  one pass over the world, and the model call and code extraction, which touch
  no shared state, are left out of the thread steps; a \<open>print\<close> is one write of
  its text and newline, where CPython makes two, so a switch between the two
  writes is not among the modelled interleavings. Snippets are straight-line
  statement lists with no loops, so a snippet that never ends is not
  represented. The exception hierarchy is known only for the built-in
  exceptions (\<open>is_exception\<close>): a user-defined subclass of \<open>BaseException\<close>
  would be treated as an \<open>Exception\<close>.
\<close>

section \<open>A demonstration environment\<close>

definition demo_env :: "string \<Rightarrow> string option" where
  "demo_env k = (if k = ''HUGGINGFACEHUB_API_TOKEN'' then Some ''hf_demo'' else None)"

definition demo_world :: "(nat, nat) world" where
  "demo_world =
     \<lparr>environ = demo_env, df = 0, stdout = Console, console = [], captured = [], figs = [(1, 5)]\<rparr>"

definition demo_parse :: "string \<Rightarrow> (nat, nat) stmt list" where
  "demo_parse c =
     (if c = ''print(42)'' then [Print ''42'']
      else if c = ''plt.figure()'' then [Figure 0, Plot (\<lambda>_. 7)]
      else if c = ''df.pop()'' then [SetDf Suc, Raise (PyExn ''KeyError'' ''fare'')]
      else if c = ''exit()'' then [Figure 2, Raise (PyExn ''SystemExit'' [])]
      else [Figure 3, Raise (PyExn ''KeyError'' ''fare'')])"

definition demo_png :: "byte list" where
  "demo_png = [137, 80, 78, 71]"

definition demo_agent :: "string option \<Rightarrow> (nat, nat) agent_env" where
  "demo_agent reply =
     \<lparr>ae_exec = stmt_exec demo_parse, ae_client = (\<lambda>t r. Inr [reply]),
      ae_savefig = (\<lambda>f opts. Inr demo_png)\<rparr>"

definition reply_print :: string where
  "reply_print = ''```python\<newline>print(42)\<newline>```''"

definition reply_chart :: string where
  "reply_chart = ''Here you go:\<newline>```python\<newline>plt.figure()\<newline>```''"

definition reply_raise :: string where
  "reply_raise = ''```python\<newline>boom\<newline>```''"

definition reply_exit :: string where
  "reply_exit = ''```python\<newline>exit()\<newline>```''"

definition reply_mutate :: string where
  "reply_mutate = ''```python\<newline>df.pop()\<newline>```''"

definition reply_empty :: string where
  "reply_empty = ''```python\<newline>```''"

definition demo_posted :: "pyexn + http_response" where
  "demo_posted = Inr \<lparr>status_code = 200, body = JObj [(''answer'', JStr ''42''), (''plot'', JNull)]\<rparr>"

definition demo_session :: ui_state where
  "demo_session = app_init (Inr health) app_start"

lemmas demo_defs = demo_env_def demo_world_def demo_parse_def demo_agent_def demo_png_def
  reply_print_def reply_chart_def reply_raise_def reply_empty_def reply_mutate_def reply_exit_def

lemmas eval_extract = extract_code_def findall.simps match_at_def py_fence_def bare_fence_def
  py_strip_def py_lstrip_def py_rstrip_def py_isspace_def

lemmas eval_ask = ask_def Let_def call_llm_def token_var_def run_code_def stmt_exec_def
  py_print_def grab_plot_def plt_close_all_def plt_figure_def plt_draw_def pick_answer_def
  ascii_decode_b64encode

section \<open>Properties across components\<close>

text \<open>
  C23: every plot \<open>ask\<close> returns is the base64 text of bytes the renderer
  produced: decoding it, as the user interfaces do, gives those bytes.
\<close>

theorem ask_plot_decodes:
  assumes "fst (ask ae sp q w) = Inr r" and "plot r = Some img"
  shows "\<exists>f png. ae_savefig ae f grab_opts = Inr png \<and> b64decode img = Some png"
  using ask_plot_from_grab [OF assms] grab_plot_some_decodes by blast

text \<open>
  C24: when \<open>ask\<close> returns a plot, no figure is left open afterwards: the chart
  state is cleared for the next request.
\<close>

theorem ask_plot_clears_figures:
  assumes "fst (ask ae sp q w) = Inr r" and "plot r \<noteq> None"
  shows "figs (snd (ask ae sp q w)) = []"
  using assms ask_plot_from_grab grab_plot_some_decodes by (cases "plot r") blast+

text \<open>
  C25: after an execution error the chart capture is skipped, so the figures the
  snippet opened before raising stay open until the next request resets them;
  the error is the answer when it is an \<open>Exception\<close> and escapes \<open>ask\<close>
  otherwise.
\<close>

theorem ask_exec_error_leaves_figures:
  assumes "call_llm (environ w) (ae_client ae) sp q = Inr (Some raw)"
    and "extract_code raw = Some code" and "code \<noteq> []"
    and "ae_exec ae = stmt_exec parse" and "parse code = Figure f # Raise e # ss"
  shows "fst (ask ae sp q w) = (if is_exception e
                                then Inr \<lparr>answer = ''Code execution error: '' @ exn_text e, plot = None\<rparr>
                                else Inl e)
         \<and> figs (snd (ask ae sp q w)) \<noteq> []"
  using assms
  by (simp add: ask_def Let_def run_code_def stmt_exec_def plt_figure_def)

text \<open>
  C31: every answer of \<open>ask\<close> reaches the history of the local page: the user
  turn and then an assistant turn with the answer and, when it is non-empty,
  the plot.
\<close>

theorem ask_turn_stored:
  assumes "fst (ask ae sp q w) = Inr r"
  shows "messages (app_turn q (local_ask ae sp q w) s)
           = messages s @ [user_msg q,
               \<lparr>role = ''assistant'', content = JStr (answer r),
                msg_plot = (case plot r of None \<Rightarrow> None | Some img \<Rightarrow> if img = [] then None else Some img)\<rparr>]"
proof (cases "plot r")
  case None
  with assms show ?thesis
    by (simp add: local_ask_def app_turn_def assistant_entry_def json_get_def result_json_def)
next
  case (Some img)
  from ask_plot_from_grab [OF assms Some] grab_plot_some_decodes
  obtain png where "b64decode img = Some png" by blast
  with assms Some show ?thesis
    by (simp add: local_ask_def app_turn_def assistant_entry_def json_get_def result_json_def)
qed

text \<open>
  C32: the dataset is shared and never restored: a snippet that changes
  \<open>df\<close> and then raises is reported as an execution error (or, for an
  exception that is not an \<open>Exception\<close>, makes \<open>ask\<close> raise), yet the change
  stays in the world every later request runs against.
\<close>

theorem ask_failed_snippet_keeps_df_change:
  assumes "call_llm (environ w) (ae_client ae) sp q = Inr (Some raw)"
    and "extract_code raw = Some code" and "code \<noteq> []"
    and "ae_exec ae = stmt_exec parse" and "parse code = SetDf g # Raise e # ss"
  shows "fst (ask ae sp q w) = (if is_exception e
                                then Inr \<lparr>answer = ''Code execution error: '' @ exn_text e, plot = None\<rparr>
                                else Inl e)
         \<and> df (snd (ask ae sp q w)) = g (df w)"
  using ask_code_branch [OF assms(1-3)] assms(4,5)
  by (simp add: run_code_def stmt_exec_def plt_close_all_def)

section \<open>Witnesses\<close>

text \<open>Each claim with a hypothesis, applied where its hypotheses hold in the demonstration environment.\<close>


lemma demo_call_print:
  "call_llm (environ demo_world) (ae_client (demo_agent (Some reply_print))) ''sp'' ''q''
     = Inr (Some reply_print)"
  by (simp add: call_llm_def demo_defs token_var_def)

theorem ask_total_witness:
  "call_llm (environ demo_world) (ae_client (demo_agent (Some reply_print))) ''sp'' ''q'' \<noteq> Inr None
   \<and> (\<exists>r. fst (ask ((demo_agent (Some reply_print))\<lparr>ae_exec := stmt_exec (\<lambda>c. [Print c])\<rparr>)
                       ''sp'' ''q'' demo_world) = Inr r)"
proof -
  let ?ae = "(demo_agent (Some reply_print))\<lparr>ae_exec := stmt_exec (\<lambda>c. [Print c])\<rparr>"
  have h1: "call_llm (environ demo_world) (ae_client ?ae) ''sp'' ''q'' \<noteq> Inr None"
    by (simp add: call_llm_def demo_defs token_var_def)
  have h2: "\<forall>e. call_llm (environ demo_world) (ae_client ?ae) ''sp'' ''q'' = Inl e \<longrightarrow> is_exception e"
    by (simp add: call_llm_def demo_defs token_var_def)
  have h3: "\<forall>code w' e w''. ae_exec ?ae code exec_scope w' = Inl (e, w'') \<longrightarrow> is_exception e"
    by (auto simp: stmt_exec_def dest!: exec_stmts_raise_in)
  have h4: "\<And>f. \<exists>png. ae_savefig ?ae f grab_opts = Inr png"
    by (simp add: demo_agent_def)
  show ?thesis using ask_total [OF h1 h2 h3 h4] h1 by simp
qed

theorem ask_llm_failed_witness:
  "call_llm (environ (demo_world\<lparr>environ := Map.empty\<rparr>)) (ae_client (demo_agent None)) ''sp'' ''q''
     = Inl (PyExn ''RuntimeError'' token_missing_msg)
   \<and> ask (demo_agent None) ''sp'' ''q'' (demo_world\<lparr>environ := Map.empty\<rparr>)
     = (Inr \<lparr>answer = ''LLM call failed: '' @ exn_text (PyExn ''RuntimeError'' token_missing_msg), plot = None\<rparr>,
        plt_close_all (demo_world\<lparr>environ := Map.empty\<rparr>))"
proof -
  have h: "call_llm (environ (demo_world\<lparr>environ := Map.empty\<rparr>)) (ae_client (demo_agent None)) ''sp'' ''q''
     = Inl (PyExn ''RuntimeError'' token_missing_msg)"
    by (simp add: call_llm_def)
  show ?thesis using ask_llm_failed [OF h] h by (simp add: is_exception_def base_only_exns_def)
qed

theorem ask_no_code_witness:
  "call_llm (environ demo_world) (ae_client (demo_agent (Some ''  No code, sorry. ''))) ''sp'' ''q''
     = Inr (Some ''  No code, sorry. '')
   \<and> extract_code ''  No code, sorry. '' = None
   \<and> fst (ask (demo_agent (Some ''  No code, sorry. '')) ''sp'' ''q'' demo_world)
     = Inr \<lparr>answer = ''No code, sorry.'', plot = None\<rparr>"
proof -
  have h1: "call_llm (environ demo_world) (ae_client (demo_agent (Some ''  No code, sorry. ''))) ''sp'' ''q''
     = Inr (Some ''  No code, sorry. '')"
    by (simp add: call_llm_def demo_defs token_var_def)
  have h2: "extract_code ''  No code, sorry. '' = None"
    by (simp add: eval_extract)
  have s: "py_strip ''  No code, sorry. '' = ''No code, sorry.''"
    by (simp add: py_strip_def py_lstrip_def py_rstrip_def py_isspace_def)
  show ?thesis using ask_no_code [OF h1 h2] h1 h2 s by simp
qed

lemma demo_extract_raise: "extract_code reply_raise = Some ''boom''"
  by (simp add: eval_extract reply_raise_def)

lemma demo_extract_exit: "extract_code reply_exit = Some ''exit()''"
  by (simp add: eval_extract reply_exit_def)

theorem ask_exec_error_witness:
  "ask (demo_agent (Some reply_raise)) ''sp'' ''q'' demo_world
     = (Inr \<lparr>answer = ''Code execution error: KeyError: fare'', plot = None\<rparr>,
        snd (run_code (stmt_exec demo_parse) ''boom'' (plt_close_all demo_world)))
   \<and> ask (demo_agent (Some reply_exit)) ''sp'' ''q'' demo_world
     = (Inl (PyExn ''SystemExit'' []), snd (run_code (stmt_exec demo_parse) ''exit()'' (plt_close_all demo_world)))"
proof -
  have h1: "call_llm (environ demo_world) (ae_client (demo_agent (Some reply_raise))) ''sp'' ''q''
     = Inr (Some reply_raise)"
    by (simp add: call_llm_def demo_defs token_var_def)
  have h3: "run_code (ae_exec (demo_agent (Some reply_raise))) ''boom'' (plt_close_all demo_world)
     = (Inl (PyExn ''KeyError'' ''fare''), snd (run_code (stmt_exec demo_parse) ''boom'' (plt_close_all demo_world)))"
    by (simp add: run_code_def stmt_exec_def demo_defs plt_figure_def)
  have g1: "call_llm (environ demo_world) (ae_client (demo_agent (Some reply_exit))) ''sp'' ''q''
     = Inr (Some reply_exit)"
    by (simp add: call_llm_def demo_defs token_var_def)
  have g3: "run_code (ae_exec (demo_agent (Some reply_exit))) ''exit()'' (plt_close_all demo_world)
     = (Inl (PyExn ''SystemExit'' []), snd (run_code (stmt_exec demo_parse) ''exit()'' (plt_close_all demo_world)))"
    by (simp add: run_code_def stmt_exec_def demo_defs plt_figure_def)
  show ?thesis
    using ask_exec_error [OF h1 demo_extract_raise _ h3] ask_exec_error [OF g1 demo_extract_exit _ g3]
    by (simp add: demo_agent_def exn_text_def is_exception_def base_only_exns_def)
qed

lemma demo_extract_print: "extract_code reply_print = Some ''print(42)''"
  by (simp add: eval_extract reply_print_def)

lemma demo_extract_chart: "extract_code reply_chart = Some ''plt.figure()''"
  by (simp add: eval_extract reply_chart_def)

theorem ask_answer_priority_witness:
  "run_code (stmt_exec demo_parse) ''print(42)'' (plt_close_all demo_world)
     = (Inr ''42'', snd (run_code (stmt_exec demo_parse) ''print(42)'' (plt_close_all demo_world)))
   \<and> grab_plot (\<lambda>f opts. Inr demo_png) (snd (run_code (stmt_exec demo_parse) ''print(42)'' (plt_close_all demo_world)))
     = (Inr None, snd (run_code (stmt_exec demo_parse) ''print(42)'' (plt_close_all demo_world)))
   \<and> ask (demo_agent (Some reply_print)) ''sp'' ''q'' demo_world
     = (Inr \<lparr>answer = ''42'', plot = None\<rparr>,
        snd (run_code (stmt_exec demo_parse) ''print(42)'' (plt_close_all demo_world)))"
proof -
  let ?w1 = "snd (run_code (stmt_exec demo_parse) ''print(42)'' (plt_close_all demo_world))"
  have h3: "run_code (ae_exec (demo_agent (Some reply_print))) ''print(42)'' (plt_close_all demo_world)
     = (Inr ''42'', ?w1)"
    by (simp add: run_code_def stmt_exec_def demo_defs py_print_def py_strip_def py_lstrip_def
        py_rstrip_def py_isspace_def)
  have h4: "grab_plot (ae_savefig (demo_agent (Some reply_print))) ?w1 = (Inr None, ?w1)"
    by (simp add: grab_plot_def run_code_def stmt_exec_def demo_defs py_print_def plt_close_all_def)
  show ?thesis
    using ask_answer_priority [OF demo_call_print demo_extract_print _ h3 h4] h3 h4
    by (simp add: demo_agent_def)
qed

theorem extract_tagged_first_witness:
  "CHR ''`'' \<notin> set ''Sure:\<newline>'' \<and> CHR ''`'' \<notin> set ''\<newline>print(len(df))\<newline>''
   \<and> extract_code (''Sure:\<newline>'' @ ''```python'' @ ''\<newline>print(len(df))\<newline>'' @ ''```'' @ ''\<newline>```\<newline>x\<newline>```'')
     = Some (py_strip ''\<newline>print(len(df))\<newline>'')"
  using extract_tagged_first [of "''Sure:\<newline>''" "''\<newline>print(len(df))\<newline>''" "''\<newline>```\<newline>x\<newline>```''"]
  by simp

theorem extract_no_fence_witness:
  "\<not> sublist ''```'' ''The answer is 342.'' \<and> extract_code ''The answer is 342.'' = None"
proof -
  have h: "\<not> sublist ''```'' ''The answer is 342.''" by code_simp
  show ?thesis using extract_no_fence [OF h] h by simp
qed

theorem extract_code_clean_witness:
  "extract_code reply_print = Some ''print(42)''
   \<and> \<not> sublist ''```'' ''print(42)'' \<and> \<not> py_isspace (hd ''print(42)'') \<and> \<not> py_isspace (last ''print(42)'')"
  using extract_code_clean [OF demo_extract_print] demo_extract_print by simp

theorem run_code_captures_witness:
  "\<not> raises (demo_parse ''print(42)'')
   \<and> fst (run_code (stmt_exec demo_parse) ''print(42)'' demo_world) = Inr (py_strip ''42\<newline>'')
   \<and> console (snd (run_code (stmt_exec demo_parse) ''print(42)'' demo_world)) = []"
proof -
  have h: "\<not> raises (demo_parse ''print(42)'')" by (simp add: demo_parse_def)
  show ?thesis using run_code_captures [of demo_parse "''print(42)''" demo_world] h by (simp add: demo_parse_def demo_world_def)
qed

theorem grab_plot_idempotent_witness:
  "grab_plot (\<lambda>f opts. Inr demo_png) demo_world
     = (Inr (Some (map (\<lambda>b. char_of (unat b)) (b64encode demo_png))), plt_close_all demo_world)
   \<and> grab_plot (\<lambda>f opts. Inr demo_png) (plt_close_all demo_world) = (Inr None, plt_close_all demo_world)"
proof -
  have h: "grab_plot (\<lambda>f opts. Inr demo_png) demo_world
     = (Inr (Some (map (\<lambda>b. char_of (unat b)) (b64encode demo_png))), plt_close_all demo_world)"
    by (simp add: grab_plot_def demo_world_def ascii_decode_b64encode)
  show ?thesis using grab_plot_idempotent [OF h] h by simp
qed

theorem grab_plot_payload_witness:
  "grab_plot (\<lambda>f opts. Inr demo_png) demo_world
     = (Inr (Some (map (\<lambda>b. char_of (unat b)) (b64encode demo_png))), plt_close_all demo_world)
   \<and> b64decode (map (\<lambda>b. char_of (unat b)) (b64encode demo_png)) = Some demo_png"
proof -
  have h: "grab_plot (\<lambda>f opts. Inr demo_png) demo_world
     = (Inr (Some (map (\<lambda>b. char_of (unat b)) (b64encode demo_png))), plt_close_all demo_world)"
    by (simp add: grab_plot_def demo_world_def ascii_decode_b64encode)
  show ?thesis using grab_plot_payload [OF h] h by simp
qed

theorem grab_plot_raises_only_savefig_witness:
  "grab_plot (\<lambda>f opts. Inl (PyExn ''ValueError'' ''bad data'')) demo_world
     = (Inl (PyExn ''ValueError'' ''bad data''), demo_world)
   \<and> figs demo_world \<noteq> []"
proof -
  have h: "grab_plot (\<lambda>f opts. Inl (PyExn ''ValueError'' ''bad data'')) demo_world
     = (Inl (PyExn ''ValueError'' ''bad data''), demo_world)"
    by (simp add: grab_plot_def demo_world_def)
  show ?thesis using grab_plot_raises_only_savefig [OF h] h by simp
qed


theorem call_llm_missing_token_witness:
  "(Map.empty ''HUGGINGFACEHUB_API_TOKEN'' = None \<or> Map.empty ''HUGGINGFACEHUB_API_TOKEN'' = Some [])
   \<and> call_llm Map.empty (ae_client (demo_agent (Some reply_print))) ''sp'' ''q''
     = Inl (PyExn ''RuntimeError''
         ''HUGGINGFACEHUB_API_TOKEN is not set. Add it to your .env file or Streamlit secrets.'')"
  using call_llm_missing_token [of Map.empty] by simp

theorem call_llm_single_request_witness:
  "call_llm demo_env (\<lambda>t r. Inr [Some ''a'']) ''sp'' ''q'' \<noteq> call_llm demo_env (\<lambda>t r. Inr [Some ''b'']) ''sp'' ''q''
   \<and> (\<exists>t. demo_env ''HUGGINGFACEHUB_API_TOKEN'' = Some t \<and> t \<noteq> [])"
proof -
  have h: "call_llm demo_env (\<lambda>t r. Inr [Some ''a'']) ''sp'' ''q'' \<noteq> call_llm demo_env (\<lambda>t r. Inr [Some ''b'']) ''sp'' ''q''"
    by (simp add: call_llm_def demo_env_def token_var_def)
  show ?thesis using call_llm_single_request [OF h] h by blast
qed

theorem ask_none_content_raises_witness:
  "call_llm (environ demo_world) (ae_client (demo_agent None)) ''sp'' ''q'' = Inr None
   \<and> ask (demo_agent None) ''sp'' ''q'' demo_world
     = (Inl (PyExn ''TypeError'' ''expected string or bytes-like object''), plt_close_all demo_world)"
proof -
  have h: "call_llm (environ demo_world) (ae_client (demo_agent None)) ''sp'' ''q'' = Inr None"
    by (simp add: call_llm_def demo_defs token_var_def)
  show ?thesis using ask_none_content_raises [OF h] h by simp
qed

theorem ask_empty_block_not_run_witness:
  "extract_code reply_empty = Some []
   \<and> ask (demo_agent (Some reply_empty)) ''sp'' ''q'' demo_world
     = (Inr \<lparr>answer = ''```python\<newline>```'', plot = None\<rparr>, plt_close_all demo_world)"
proof -
  have h1: "call_llm (environ demo_world) (ae_client (demo_agent (Some reply_empty))) ''sp'' ''q''
     = Inr (Some reply_empty)"
    by (simp add: call_llm_def demo_defs token_var_def)
  have h2: "extract_code reply_empty = Some []"
    by (simp add: eval_extract reply_empty_def)
  have s: "py_strip reply_empty = ''```python\<newline>```''"
    by (simp add: py_strip_def py_lstrip_def py_rstrip_def py_isspace_def reply_empty_def)
  show ?thesis using ask_empty_block_not_run [OF h1 h2] h2 s by simp
qed

theorem ask_print_only_witness:
  "\<not> raises (demo_parse ''print(42)'') \<and> \<not> draws (demo_parse ''print(42)'')
   \<and> fst (ask (demo_agent (Some reply_print)) ''sp'' ''q'' demo_world) = Inr \<lparr>answer = ''42'', plot = None\<rparr>"
proof -
  have h4: "ae_exec (demo_agent (Some reply_print)) = stmt_exec demo_parse"
    by (simp add: demo_agent_def)
  have h5: "\<not> raises (demo_parse ''print(42)'')" and h6: "\<not> draws (demo_parse ''print(42)'')"
    by (simp_all add: demo_parse_def)
  have h7: "py_strip (printed (demo_parse ''print(42)'')) \<noteq> []"
    and s: "py_strip (printed (demo_parse ''print(42)'')) = ''42''"
    by (simp_all add: demo_parse_def py_strip_def py_lstrip_def py_rstrip_def py_isspace_def)
  show ?thesis
    using ask_print_only [OF demo_call_print demo_extract_print _ h4 h5 h6 h7] h5 h6 s by simp
qed

theorem ask_chart_only_witness:
  "draws (demo_parse ''plt.figure()'') \<and> printed (demo_parse ''plt.figure()'') = []
   \<and> (\<exists>img png. fst (ask (demo_agent (Some reply_chart)) ''sp'' ''q'' demo_world)
        = Inr \<lparr>answer = ''Here's the chart you asked for.'', plot = Some img\<rparr>
      \<and> img \<noteq> [] \<and> b64decode img = Some png \<and> png \<noteq> [])"
proof -
  have h1: "call_llm (environ demo_world) (ae_client (demo_agent (Some reply_chart))) ''sp'' ''q''
     = Inr (Some reply_chart)"
    by (simp add: call_llm_def demo_defs token_var_def)
  have h4: "ae_exec (demo_agent (Some reply_chart)) = stmt_exec demo_parse"
    by (simp add: demo_agent_def)
  have h5: "\<not> raises (demo_parse ''plt.figure()'')" and h6: "draws (demo_parse ''plt.figure()'')"
    and h7: "py_strip (printed (demo_parse ''plt.figure()'')) = []"
    and p: "printed (demo_parse ''plt.figure()'') = []"
    by (simp_all add: demo_parse_def)
  have h8: "\<And>f. \<exists>png. ae_savefig (demo_agent (Some reply_chart)) f grab_opts = Inr png \<and> png \<noteq> []"
    by (simp add: demo_agent_def demo_png_def)
  show ?thesis
    using ask_chart_only [OF h1 demo_extract_chart _ h4 h5 h6 h7 h8] h6 p by simp
qed

lemma demo_chart_ask:
  "fst (ask (demo_agent (Some reply_chart)) ''sp'' ''q'' demo_world)
     = Inr \<lparr>answer = ''Here's the chart you asked for.'',
            plot = Some (map (\<lambda>b. char_of (unat b)) (b64encode demo_png))\<rparr>"
proof -
  have e: "extract_code ''Here you go:\<newline>```python\<newline>plt.figure()\<newline>```'' = Some ''plt.figure()''"
    using demo_extract_chart by (simp add: reply_chart_def)
  then show ?thesis using b64encode_nonempty [of demo_png]
    by (simp add: eval_ask demo_defs chart_ack_def del: b64encode.simps)
qed

theorem ask_plot_decodes_witness:
  "\<exists>r img. fst (ask (demo_agent (Some reply_chart)) ''sp'' ''q'' demo_world) = Inr r \<and> plot r = Some img
     \<and> b64decode img = Some demo_png"
proof -
  let ?img = "map (\<lambda>b. char_of (unat b)) (b64encode demo_png)"
  let ?r = "\<lparr>answer = ''Here's the chart you asked for.'', plot = Some ?img\<rparr>"
  have h1: "fst (ask (demo_agent (Some reply_chart)) ''sp'' ''q'' demo_world) = Inr ?r"
    by (rule demo_chart_ask)
  have h2: "plot ?r = Some ?img" by simp
  from ask_plot_decodes [OF h1 h2] have "b64decode ?img = Some demo_png"
    by (auto simp: demo_agent_def)
  with h1 show ?thesis by auto
qed

theorem ask_plot_clears_figures_witness:
  "\<exists>r. fst (ask (demo_agent (Some reply_chart)) ''sp'' ''q'' demo_world) = Inr r \<and> plot r \<noteq> None
     \<and> figs (snd (ask (demo_agent (Some reply_chart)) ''sp'' ''q'' demo_world)) = []"
proof -
  let ?img = "map (\<lambda>b. char_of (unat b)) (b64encode demo_png)"
  let ?r = "\<lparr>answer = ''Here's the chart you asked for.'', plot = Some ?img\<rparr>"
  have h1: "fst (ask (demo_agent (Some reply_chart)) ''sp'' ''q'' demo_world) = Inr ?r"
    by (rule demo_chart_ask)
  have h2: "plot ?r \<noteq> None" by simp
  show ?thesis using ask_plot_clears_figures [OF h1 h2] h1 by auto
qed

theorem ask_exec_error_leaves_figures_witness:
  "demo_parse ''boom'' = Figure 3 # Raise (PyExn ''KeyError'' ''fare'') # []
   \<and> fst (ask (demo_agent (Some reply_raise)) ''sp'' ''q'' demo_world)
     = Inr \<lparr>answer = ''Code execution error: '' @ exn_text (PyExn ''KeyError'' ''fare''), plot = None\<rparr>
   \<and> figs (snd (ask (demo_agent (Some reply_raise)) ''sp'' ''q'' demo_world)) \<noteq> []"
proof -
  have h1: "call_llm (environ demo_world) (ae_client (demo_agent (Some reply_raise))) ''sp'' ''q''
     = Inr (Some reply_raise)"
    by (simp add: call_llm_def demo_defs token_var_def)
  have h4: "ae_exec (demo_agent (Some reply_raise)) = stmt_exec demo_parse"
    by (simp add: demo_agent_def)
  have h5: "demo_parse ''boom'' = Figure 3 # Raise (PyExn ''KeyError'' ''fare'') # []"
    by (simp add: demo_parse_def)
  show ?thesis using ask_exec_error_leaves_figures [OF h1 demo_extract_raise _ h4 h5] h5
    by (simp add: is_exception_def base_only_exns_def)
qed

theorem ask_turn_stored_witness:
  "messages (app_turn ''q'' (local_ask (demo_agent (Some reply_chart)) ''sp'' ''q'' demo_world) app_start)
     = [user_msg ''q'', \<lparr>role = ''assistant'', content = JStr ''Here's the chart you asked for.'',
         msg_plot = Some (map (\<lambda>b. char_of (unat b)) (b64encode demo_png))\<rparr>]"
  using ask_turn_stored [OF demo_chart_ask, of app_start] b64encode_nonempty [of demo_png]
  by (simp add: app_start_def demo_png_def del: b64encode.simps)

lemma demo_session_ready:
  "backend_up demo_session = Some True" "render_history (messages demo_session) = Inr ()"
  by (simp_all add: demo_session_def app_init_def app_start_def check_backend_def health_def)

theorem app_reach_hist_ok_witness:
  "app_reach (app_turn ''q'' (get_response True demo_posted (Inr JNull)) demo_session)
   \<and> hist_ok (messages (app_turn ''q'' (get_response True demo_posted (Inr JNull)) demo_session))
   \<and> render_history (messages (app_turn ''q'' (get_response True demo_posted (Inr JNull)) demo_session)) = Inr ()"
proof -
  have r0: "app_reach demo_session"
    unfolding demo_session_def by (rule app_reach.step [OF app_reach.start app_step.rerun])
  have "app_reach (app_turn ''q'' (get_response True demo_posted (Inr JNull)) demo_session)"
    by (rule app_reach.step [OF r0 app_step.submit [OF demo_session_ready]])
  with UI.app_reach_hist_ok show ?thesis by blast
qed

theorem app_step_monotone_witness:
  "app_step demo_session (app_turn ''q'' (get_response True demo_posted (Inr JNull)) demo_session)
   \<and> prefix (messages demo_session) (messages (app_turn ''q'' (get_response True demo_posted (Inr JNull)) demo_session))
   \<and> backend_up (app_turn ''q'' (get_response True demo_posted (Inr JNull)) demo_session) = Some True"
proof -
  have st: "app_step demo_session (app_turn ''q'' (get_response True demo_posted (Inr JNull)) demo_session)"
    by (rule app_step.submit [OF demo_session_ready])
  from UI.app_step_monotone [OF st] demo_session_ready(1) st show ?thesis by blast
qed

theorem ask_failed_snippet_keeps_df_change_witness:
  "fst (ask (demo_agent (Some reply_mutate)) ''sp'' ''q'' demo_world)
     = Inr \<lparr>answer = ''Code execution error: '' @ exn_text (PyExn ''KeyError'' ''fare''), plot = None\<rparr>
   \<and> df (snd (ask (demo_agent (Some reply_mutate)) ''sp'' ''q'' demo_world)) = 1"
proof -
  have h1: "call_llm (environ demo_world) (ae_client (demo_agent (Some reply_mutate))) ''sp'' ''q''
     = Inr (Some reply_mutate)"
    by (simp add: call_llm_def demo_defs token_var_def)
  have h2: "extract_code reply_mutate = Some ''df.pop()''"
    by (simp add: reply_mutate_def eval_extract)
  have h4: "ae_exec (demo_agent (Some reply_mutate)) = stmt_exec demo_parse"
    by (simp add: demo_agent_def)
  have h5: "demo_parse ''df.pop()'' = SetDf Suc # Raise (PyExn ''KeyError'' ''fare'') # []"
    by (simp add: demo_parse_def)
  show ?thesis
    using ask_failed_snippet_keeps_df_change [OF h1 h2 _ h4 h5]
    by (simp add: demo_world_def is_exception_def base_only_exns_def)
qed

theorem race_exchanges_results_witness:
  "fst (exec_out [Print ''a'']) = None \<and> fst (exec_out [Print ''b'', Figure 2]) = None
   \<and> (\<exists>s. cstep\<^sup>*\<^sup>* (cinit [[Print ''a''], [Print ''b'', Figure 2]] :: (nat, nat) shared) s
          \<and> all_finished s \<and> outcome (ths s ! 0) = Some (Inr [])
          \<and> outcome (ths s ! 1) = Some (Inr ''b\<newline>a'')
          \<and> chart (ths s ! 0) = Some (Some 2) \<and> chart (ths s ! 1) = None
          \<and> term_out s = [] \<and> sys_stdout s = StringIO 0)"
  using Threads.race_exchanges_results [of "[Print ''a'']" "[Print ''b'', Figure (2::nat)] :: (nat, nat) stmt list"]
  by (simp add: open_fig_def py_strip_def py_lstrip_def py_rstrip_def py_isspace_def)

theorem extract_keeps_tag_witness:
  "extract_code ''```Python\<newline>print(df.shape)\<newline>```''
     = Some (py_strip (''Python'' @ ''\<newline>'' @ ''print(df.shape)\<newline>''))
   \<and> prefix ''Python'' (py_strip (''Python'' @ ''\<newline>'' @ ''print(df.shape)\<newline>''))"
proof -
  have "\<not> sublist ''```python'' (''```'' @ [])" by (auto dest: sublist_length_le)
  moreover have "\<forall>c \<in> set ''Python''. \<not> py_isspace c" by (simp add: py_isspace_def)
  ultimately show ?thesis
    using Extract.extract_keeps_tag [of "[]" "''Python''" "''print(df.shape)\<newline>''" "[]"] by simp
qed

end
